theory Spec2Isabelle
  imports Complex_Main "HOL-Library.Sublist"
begin

section \<open>The refresh utility of devtoolz (src/refresh.js)\<close>

text \<open>
  The script is a chain of Node.js callbacks. It is embedded in continuation-passing
  style, as it is written: every function of the script takes its \<open>callback\<close> and the
  current world, and yields an outcome. The world holds the script's global variables
  (\<open>opts\<close>/\<open>config\<close>, \<open>startTime\<close>, \<open>endTime\<close>), the arrays that the script mutates in
  place, and the chronological trace of everything the process did to the outside
  (console output, file access, external commands, termination).

  Everything outside the script is a parameter: the parsed command line (\<open>program\<close>, as
  commander leaves it after \<open>parse\<close>), \<open>process.argv\<close>, and the environment \<open>env\<close>,
  whose oracles answer file access, the configuration read, the svn update, the external
  commands and the clock. The oracles see the trace so far, so the same command may
  succeed once and fail later.

  The script runs on one thread and waits for each external operation before it goes
  on, so an asynchronous call is the call of its callback in the world the operation
  left. What the libraries do is taken from their documentation: lodash 3
  (\<open>_.includes\<close>, \<open>_.find\<close>, \<open>_.matchesProperty\<close>, \<open>_.forEach\<close>, \<open>_.clone\<close> with the
  deep flag), async (\<open>waterfall\<close>, which calls its final callback from within the
  callback of the task that reports an error, and \<open>eachSeries\<close>), and Node
  (\<open>process.exit()\<close> does not return).
\<close>

subsection \<open>Values, data model, events\<close>

datatype js_error = Error (message: string)

datatype jsval = JUndefined | JString string | JBool bool

text \<open>
  The values that occur as command arguments: the strings of a template, and the
  \<open>slnFile\<close> of a project, which is \<open>undefined\<close> when the configuration gives none.
  \<open>JBool\<close> is there for what a callback may return to \<open>_.forEach\<close>.
\<close>

record Project =
  name :: string
  path :: string
  buildTool :: string
  buildPath :: string
  slnFile :: jsval

record Workspace =
  ws_name :: string
  ws_projects :: "string list"

text \<open>
  A build command template is an object \<open>{buildFile, buildArgs}\<close>. The object itself is
  never written to; its \<open>buildArgs\<close> array is (\<open>splice\<close>, \<open>push\<close>), so the array lives in
  the heap and the object holds its address.
\<close>

record BuildCommand =
  buildFile :: string
  buildArgs :: nat

record Configuration =
  reposRoot :: "string option"
  buildConfig :: "(string \<Rightarrow> BuildCommand option) option"
  projects :: "Project list"
  workspaces :: "Workspace list"

record Program =
  project :: "string option"
  workspace :: "string option"
  config :: "string option"
  build :: bool

record exec_options =
  cwd :: string
  maxBuffer :: int

text \<open>
  The events of a run. \<open>ConsoleLog\<close> and \<open>StdoutWrite\<close> are the script's own lines;
  \<open>EchoStderr\<close> is \<open>console.log(stderr)\<close> of a restore command's error output.
  \<open>SvnUpdate p\<close> is \<open>svn.commands.update(p, {quiet: false, force: true}, ...)\<close>.
\<close>

datatype event =
    StdoutWrite string
  | ConsoleLog string
  | EchoStderr string
  | FsAccess string
  | OptsRead string
  | SvnUpdate string
  | ExecFile string "jsval list" exec_options
  | Uncaught string
  | ProcessExit

type_synonym heap = "jsval list list"

text \<open>
  The heap holds the \<open>buildArgs\<close> arrays, an address being an index. Addresses come
  from the configuration read and from \<open>_.clone\<close> only.
\<close>

record world =
  trace :: "event list"
  heap :: heap
  opts :: "Configuration option"
  startTime :: "int option"
  endTime :: "int option"

text \<open>
  A configuration read fails with an error, throws on content that is not JSON, or
  yields the configuration (merged over the defaults) and its arrays.
\<close>

datatype read_result =
    ReadFailed js_error
  | ReadThrew
  | ReadLoaded Configuration heap

record env =
  version :: string
  fsAccess :: "string \<Rightarrow> bool"
  optsRead :: "string \<Rightarrow> read_result"
  svnUpdate :: "event list \<Rightarrow> string \<Rightarrow> js_error option"
  execFile :: "event list \<Rightarrow> string \<Rightarrow> jsval list \<Rightarrow> exec_options \<Rightarrow> js_error option \<times> string"
  clock :: "event list \<Rightarrow> int"

text \<open>
  An outcome is either the end of the process (\<open>process.exit()\<close> or an uncaught
  exception: nothing of the script runs afterwards) or a normal return to the caller
  with a value.
\<close>

datatype outcome = Halt world | Return jsval world

type_synonym callback = "js_error option \<Rightarrow> world \<Rightarrow> outcome"

definition init_world :: world where
  "init_world = \<lparr>trace = [], heap = [], opts = None, startTime = None, endTime = None\<rparr>"

definition emits :: "event list \<Rightarrow> world \<Rightarrow> world" where
  "emits es w = w\<lparr>trace := trace w @ es\<rparr>"

text \<open>An exception that nothing catches ends the process.\<close>

definition throwTypeError :: "world \<Rightarrow> outcome" where
  "throwTypeError w = Halt (emits [Uncaught ''TypeError''] w)"

definition throwSyntaxError :: "world \<Rightarrow> outcome" where
  "throwSyntaxError w = Halt (emits [Uncaught ''SyntaxError''] w)"

text \<open>Statement sequencing: the second statement runs only if the first returned.\<close>

definition andThen :: "outcome \<Rightarrow> (world \<Rightarrow> outcome) \<Rightarrow> outcome" where
  "andThen r f = (case r of Halt w \<Rightarrow> Halt w | Return v w \<Rightarrow> f w)"

subsection \<open>JavaScript and library primitives\<close>

text \<open>An option value of commander is a string or \<open>undefined\<close>; the empty string is falsy.\<close>

definition truthy :: "string option \<Rightarrow> bool" where
  "truthy v = (case v of None \<Rightarrow> False | Some s \<Rightarrow> s \<noteq> [])"

definition toString :: "string option \<Rightarrow> string" where
  "toString v = (case v of None \<Rightarrow> ''undefined'' | Some s \<Rightarrow> s)"

definition toNumber :: "int option \<Rightarrow> int" where
  "toNumber v = (case v of None \<Rightarrow> 0 | Some n \<Rightarrow> n)"

definition lodash_includes :: "'a list \<Rightarrow> 'a \<Rightarrow> bool" where
  "lodash_includes xs v = (v \<in> set xs)"

definition matchesProperty :: "('a \<Rightarrow> 'v) \<Rightarrow> 'v \<Rightarrow> 'a \<Rightarrow> bool" where
  "matchesProperty prop v obj = (prop obj = v)"

primrec lodash_find :: "'a list \<Rightarrow> ('a \<Rightarrow> bool) \<Rightarrow> 'a option" where
  "lodash_find [] p = None"
| "lodash_find (x # xs) p = (if p x then Some x else lodash_find xs p)"

text \<open>
  \<open>_.clone(value, true)\<close> is the deep clone of lodash 3: the copy of a template is a new
  object with a new \<open>buildArgs\<close> array of the same contents; \<open>undefined\<close> clones to
  \<open>undefined\<close>.
\<close>

definition lodash_clone :: "BuildCommand option \<Rightarrow> heap \<Rightarrow> BuildCommand option \<times> heap" where
  "lodash_clone v h =
     (case v of
        None \<Rightarrow> (None, h)
      | Some c \<Rightarrow> (Some (c\<lparr>buildArgs := length h\<rparr>), h @ [h ! buildArgs c]))"

text \<open>\<open>array.splice(start, 0, item)\<close>: a start beyond the end is clamped to the end.\<close>

definition js_splice :: "nat \<Rightarrow> jsval \<Rightarrow> jsval list \<Rightarrow> jsval list" where
  "js_splice start item xs = take start xs @ item # drop start xs"

definition push :: "jsval \<Rightarrow> jsval list \<Rightarrow> jsval list" where
  "push item xs = xs @ [item]"

text \<open>
  \<open>_.forEach\<close> over an array: the iteratee is a closure, whose captured variable is
  threaded as \<open>s\<close>; the loop stops early only when the iteratee returns \<open>false\<close>.
\<close>

primrec lodash_forEach ::
  "'a list \<Rightarrow> ('a \<Rightarrow> 's \<Rightarrow> world \<Rightarrow> 's \<times> outcome) \<Rightarrow> 's \<Rightarrow> world \<Rightarrow> 's \<times> outcome" where
  "lodash_forEach [] f s w = (s, Return JUndefined w)"
| "lodash_forEach (x # xs) f s w =
     (case f x s w of
        (s', Halt w') \<Rightarrow> (s', Halt w')
      | (s', Return v w') \<Rightarrow>
          if v = JBool False then (s', Return JUndefined w') else lodash_forEach xs f s' w')"

text \<open>
  \<open>async.eachSeries\<close>: the iterator runs on one item at a time; an error ends the series
  and goes to the final callback, which is otherwise called after the last item.
\<close>

primrec async_eachSeries ::
  "'a list \<Rightarrow> ('a \<Rightarrow> callback \<Rightarrow> world \<Rightarrow> outcome) \<Rightarrow> callback \<Rightarrow> world \<Rightarrow> outcome" where
  "async_eachSeries [] iterator cb w = cb None w"
| "async_eachSeries (x # xs) iterator cb w =
     iterator x
       (\<lambda>err w'. case err of
                   Some e \<Rightarrow> cb (Some e) w'
                 | None \<Rightarrow> async_eachSeries xs iterator cb w') w"

text \<open>Decimal digits of an integer, as JavaScript prints one.\<close>

fun string_of_nat :: "nat \<Rightarrow> string" where
  "string_of_nat n =
     (if n < 10 then [''0123456789'' ! n]
      else string_of_nat (n div 10) @ [''0123456789'' ! (n mod 10)])"

declare string_of_nat.simps [simp del]

definition string_of_int :: "int \<Rightarrow> string" where
  "string_of_int i = (if i < 0 then CHR ''-'' # string_of_nat (nat (- i)) else string_of_nat (nat i))"

text \<open>
  The \<open>%\<close> of JavaScript keeps the sign of the dividend. Durations are exact rationals
  here: the script divides an integer number of milliseconds by 1000.
\<close>

definition js_rem :: "rat \<Rightarrow> rat \<Rightarrow> rat" where
  "js_rem x y =
     (let q = x / y in x - y * of_int (if 0 \<le> q then \<lfloor>q\<rfloor> else \<lceil>q\<rceil>))"

subsection \<open>The script\<close>

definition processError :: "js_error \<Rightarrow> world \<Rightarrow> outcome" where
  "processError err w =
     Halt (emits [ConsoleLog [], ConsoleLog (''Error: '' @ message err), ConsoleLog [],
                  ProcessExit] w)"

text \<open>The final callback of \<open>async.waterfall\<close>: \<open>if (err) processError(err)\<close>.\<close>

definition waterfallDone :: callback where
  "waterfallDone err w = (case err of Some e \<Rightarrow> processError e w | None \<Rightarrow> Return JUndefined w)"

definition setupProgramInfo :: "callback \<Rightarrow> world \<Rightarrow> outcome" where
  "setupProgramInfo callback w = callback None w"

definition headerLines :: "env \<Rightarrow> event list" where
  "headerLines env =
     [StdoutWrite [CHR 0x1B, CHR ''c''],
      ConsoleLog ''****************************************'',
      ConsoleLog ''*                                      *'',
      ConsoleLog (''*            DevToolz v'' @ version env @ ''           *''),
      ConsoleLog ''*                                      *'',
      ConsoleLog ''****************************************'',
      ConsoleLog [],
      ConsoleLog [],
      ConsoleLog ''utility: refresh'',
      ConsoleLog [],
      ConsoleLog [],
      ConsoleLog []]"

definition headerCondition :: "string list \<Rightarrow> bool" where
  "headerCondition argv =
     (\<not> lodash_includes argv ''-h'' \<or>
      \<not> lodash_includes argv ''--help'' \<or>
      \<not> lodash_includes argv ''-V'' \<or>
      \<not> lodash_includes argv ''--version'')"

definition displayHeader :: "env \<Rightarrow> string list \<Rightarrow> callback \<Rightarrow> world \<Rightarrow> outcome" where
  "displayHeader env argv callback w =
     callback None (if headerCondition argv then emits (headerLines env) w else w)"

text \<open>
  A callback that receives a result, \<open>callback(null, value)\<close>, or an error,
  \<open>callback(err)\<close>, takes a sum.
\<close>

definition validateProgram ::
  "env \<Rightarrow> string list \<Rightarrow> Program \<Rightarrow> (js_error + string \<Rightarrow> world \<Rightarrow> outcome) \<Rightarrow>
   world \<Rightarrow> outcome" where
  "validateProgram env argv prog callback w =
     (let (isValid0, errMsg0) = (True, []);
          (isValid1, errMsg1) =
             (if length argv \<le> 2 then (False, ''No arguments defined.'')
              else (isValid0, errMsg0));
          (isValid, errMsg) =
             (if truthy (project prog) \<and> truthy (workspace prog)
              then (False, ''Options --project and --workspace cannot be used together.'')
              else (isValid1, errMsg1))
      in if \<not> isValid then callback (Inl (Error errMsg)) w
         else
           let configPath =
                 (if truthy (config prog) then toString (config prog) else ''config.json'');
               w1 = emits [FsAccess configPath] w
           in if \<not> fsAccess env configPath
              then callback
                     (Inl (Error (''Cannot locate --config value: '' @ toString (config prog)))) w1
              else callback (Inr configPath) w1)"

definition isDefinedAndNonNull :: "'a option \<Rightarrow> bool" where
  "isDefinedAndNonNull v = (case v of None \<Rightarrow> False | Some x \<Rightarrow> True)"

definition defaultOptions :: Configuration where
  "defaultOptions = \<lparr>reposRoot = None, buildConfig = None, projects = [], workspaces = []\<rparr>"

text \<open>
  \<open>opts.read\<close> belongs to the options package: the environment says whether the read
  fails, throws on the content, or yields the configuration merged over the defaults,
  together with the arrays it allocated.
\<close>

definition setupConfigOptions :: "env \<Rightarrow> Program \<Rightarrow> string \<Rightarrow> callback \<Rightarrow> world \<Rightarrow> outcome" where
  "setupConfigOptions env prog configPath callback w =
     (let w1 = emits [OptsRead configPath] (w\<lparr>opts := Some defaultOptions\<rparr>)
      in case optsRead env configPath of
           ReadFailed err \<Rightarrow> callback (Some err) w1
         | ReadThrew \<Rightarrow> throwSyntaxError w1
         | ReadLoaded cfg h \<Rightarrow>
             let w2 = w1\<lparr>opts := Some cfg, heap := h\<rparr>
             in if build prog \<and> \<not> isDefinedAndNonNull (buildConfig cfg)
                then callback (Some (Error (''Using option --build but no '' @ [CHR 0x22] @ ''buildConfig'' @
                                       [CHR 0x22] @ '' configuration defined.''))) w2
                else callback None w2)"

definition validateTargetProject ::
  "string \<Rightarrow> (js_error + Project \<Rightarrow> world \<Rightarrow> outcome) \<Rightarrow> world \<Rightarrow> outcome" where
  "validateTargetProject target callback w =
     (case opts w of
        None \<Rightarrow> throwTypeError w
      | Some cfg \<Rightarrow>
          (case lodash_find (projects cfg) (matchesProperty name target) of
             None \<Rightarrow> callback (Inl (Error (''Project '' @ target @ '' is not configured.''))) w
           | Some targetProject \<Rightarrow> callback (Inr targetProject) w))"

definition validateTargetWorkspace ::
  "string \<Rightarrow> (js_error + Workspace \<Rightarrow> world \<Rightarrow> outcome) \<Rightarrow> world \<Rightarrow> outcome" where
  "validateTargetWorkspace target callback w =
     (case opts w of
        None \<Rightarrow> throwTypeError w
      | Some cfg \<Rightarrow>
          (case lodash_find (workspaces cfg) (matchesProperty ws_name target) of
             None \<Rightarrow> callback (Inl (Error (''Workspace '' @ target @ '' is not configured.''))) w
           | Some targetWorkspace \<Rightarrow> callback (Inr targetWorkspace) w))"

abbreviation complete :: string where
  "complete \<equiv> ''complete.'' @ [CHR 0x0A]"

text \<open>
  The last step of both build paths: announce, run the build command, report. Reading
  \<open>bc.buildFile\<close> of an unconfigured tool is an uncaught TypeError.
\<close>

definition rebuildSolution ::
  "env \<Rightarrow> BuildCommand option \<Rightarrow> exec_options \<Rightarrow> callback \<Rightarrow> world \<Rightarrow> outcome" where
  "rebuildSolution env bc options callback w =
     (let w1 = emits [StdoutWrite ''  Rebuilding solution...''] w
      in case bc of
           None \<Rightarrow> throwTypeError w1
         | Some b \<Rightarrow>
             (let args = heap w1 ! buildArgs b;
                  (err, stderr) = execFile env (trace w1) (buildFile b) args options;
                  w2 = emits [ExecFile (buildFile b) args options] w1
              in (case err of
                    Some e \<Rightarrow> callback (Some e) w2
                  | None \<Rightarrow> callback None (emits [StdoutWrite complete, ConsoleLog []] w2))))"

text \<open>The body of \<open>if (program.build)\<close> in \<open>refreshTargetProject\<close>.\<close>

definition buildProject :: "env \<Rightarrow> Project \<Rightarrow> callback \<Rightarrow> world \<Rightarrow> outcome" where
  "buildProject env proj callback w =
     (case opts w of
        None \<Rightarrow> throwTypeError w
      | Some cfg \<Rightarrow>
         (case buildConfig cfg of
            None \<Rightarrow> throwTypeError w
          | Some tools \<Rightarrow>
              let (bc, h1) = lodash_clone (tools (buildTool proj)) (heap w);
                  options = \<lparr>cwd = buildPath proj, maxBuffer = 1000 * 1024\<rparr>;
                  w1 = w\<lparr>heap := h1\<rparr>
              in if buildTool proj = ''msbuild'' then
                   (let (nc, h2) = lodash_clone (tools ''nuget'') (heap w1);
                        w2 = w1\<lparr>heap := h2\<rparr>
                    in case nc of
                         None \<Rightarrow> throwTypeError w2
                       | Some n \<Rightarrow>
                          (let w3 = w2\<lparr>heap := (heap w2)
                                      [buildArgs n := js_splice 1 (slnFile proj) (heap w2 ! buildArgs n)]\<rparr>;
                               w4 = emits [StdoutWrite ''  Restoring nuget packages...''] w3;
                               args = heap w4 ! buildArgs n;
                               (err, stderr) = execFile env (trace w4) (buildFile n) args options;
                               w5 = emits [ExecFile (buildFile n) args options] w4;
                               w6 = (if stderr \<noteq> [] then emits [EchoStderr stderr] w5 else w5)
                           in (case err of
                                 Some e \<Rightarrow> callback (Some e) w6
                               | None \<Rightarrow>
                                  (let w7 = emits [StdoutWrite complete] w6
                                   in (case bc of
                                         None \<Rightarrow> throwTypeError w7
                                       | Some b \<Rightarrow>
                                           rebuildSolution env (Some b) options callback
                                             (w7\<lparr>heap := (heap w7)
                                                [buildArgs b :=
                                                   push (slnFile proj) (heap w7 ! buildArgs b)]\<rparr>))))))
                 else rebuildSolution env bc options callback w1))"

definition refreshTargetProject ::
  "env \<Rightarrow> Program \<Rightarrow> Project \<Rightarrow> callback \<Rightarrow> world \<Rightarrow> outcome" where
  "refreshTargetProject env prog proj callback w =
     (let w1 = emits [ConsoleLog (''Refreshing '' @ name proj @ '':''),
                      StdoutWrite ''  Updating local copy...''] w;
          err = svnUpdate env (trace w1) (path proj);
          w2 = emits [SvnUpdate (path proj)] w1
      in case err of
           Some e \<Rightarrow> callback (Some e) w2
         | None \<Rightarrow>
             let w3 = emits [StdoutWrite complete] w2
             in if build prog then buildProject env proj callback w3
                else callback None (emits [ConsoleLog []] w3))"

text \<open>
  The iteratee of the \<open>_.forEach\<close> in \<open>refreshTargetWorkspace\<close>; \<open>targetProjects\<close> is the
  array it pushes to. On an unresolved name it returns what \<open>callback\<close> returns.
\<close>

definition resolveIteratee ::
  "callback \<Rightarrow> string \<Rightarrow> Project list \<Rightarrow> world \<Rightarrow> Project list \<times> outcome" where
  "resolveIteratee callback proj targetProjects w =
     (case opts w of
        None \<Rightarrow> (targetProjects, throwTypeError w)
      | Some cfg \<Rightarrow>
          (case lodash_find (projects cfg) (matchesProperty name proj) of
             None \<Rightarrow>
               (targetProjects,
                callback (Some (Error (''Workspace project '' @ proj @ '' is not configured.''))) w)
           | Some targetProject \<Rightarrow> (targetProjects @ [targetProject], Return JUndefined w)))"

definition refreshTargetWorkspace ::
  "env \<Rightarrow> Program \<Rightarrow> Workspace \<Rightarrow> callback \<Rightarrow> world \<Rightarrow> outcome" where
  "refreshTargetWorkspace env prog wsp callback w =
     (case lodash_forEach (ws_projects wsp) (resolveIteratee callback) [] w of
        (targetProjects, Halt w') \<Rightarrow> Halt w'
      | (targetProjects, Return v w') \<Rightarrow>
          async_eachSeries targetProjects (refreshTargetProject env prog)
            (\<lambda>err w''. case err of Some e \<Rightarrow> callback (Some e) w'' | None \<Rightarrow> callback None w'')
            w')"

definition displayProcessTime :: "world \<Rightarrow> world" where
  "displayProcessTime w =
     (let timeDiff0 = (of_int (toNumber (endTime w) - toNumber (startTime w)) :: rat);
          timeDiff1 = timeDiff0 / 1000;
          seconds = round (js_rem timeDiff1 60);
          timeDiff2 = (of_int \<lfloor>timeDiff1 / 60\<rfloor> :: rat);
          minutes = round (js_rem timeDiff2 60)
      in emits [ConsoleLog (''Refresh complete in '' @ string_of_int minutes @
                            '' minutes and '' @ string_of_int seconds @ '' seconds.'')] w)"

text \<open>
  The callback that both branches of \<open>processRequest\<close> give to the refresh: on success
  it takes the end time, prints the summary and calls back.
\<close>

definition refreshed :: "env \<Rightarrow> callback \<Rightarrow> callback" where
  "refreshed env callback err w =
     (case err of
        Some e \<Rightarrow> callback (Some e) w
      | None \<Rightarrow>
          let w1 = w\<lparr>endTime := Some (clock env (trace w))\<rparr>;
              w2 = emits [ConsoleLog [], ConsoleLog []] w1;
              w3 = displayProcessTime w2;
              w4 = emits [ConsoleLog []] w3
          in callback None w4)"

definition processRequest :: "env \<Rightarrow> Program \<Rightarrow> callback \<Rightarrow> world \<Rightarrow> outcome" where
  "processRequest env prog callback w =
     andThen
       (if truthy (project prog) then
          validateTargetProject (toString (project prog))
            (\<lambda>r w'. case r of
                       Inl e \<Rightarrow> callback (Some e) w'
                     | Inr proj \<Rightarrow>
                         let w1 = w'\<lparr>startTime := Some (clock env (trace w'))\<rparr>;
                             w2 = emits [ConsoleLog []] w1
                         in refreshTargetProject env prog proj (refreshed env callback) w2) w
        else Return JUndefined w)
       (\<lambda>w0.
          if truthy (workspace prog) then
            validateTargetWorkspace (toString (workspace prog))
              (\<lambda>r w'. case r of
                         Inl e \<Rightarrow> callback (Some e) w'
                       | Inr wsp \<Rightarrow>
                           let w1 = w'\<lparr>startTime := Some (clock env (trace w'))\<rparr>;
                               w2 = emits [ConsoleLog []] w1
                           in refreshTargetWorkspace env prog wsp (refreshed env callback) w2) w0
          else Return JUndefined w0)"

text \<open>
  The entry point, \<open>async.waterfall\<close> over the five stages: a stage that calls back with
  an error ends the waterfall in \<open>waterfallDone\<close>, which is also the callback of the
  last stage.
\<close>

definition refresh :: "env \<Rightarrow> string list \<Rightarrow> Program \<Rightarrow> outcome" where
  "refresh env argv prog =
     setupProgramInfo
       (\<lambda>err1 w1. case err1 of
          Some e \<Rightarrow> waterfallDone (Some e) w1
        | None \<Rightarrow>
            displayHeader env argv
              (\<lambda>err2 w2. case err2 of
                 Some e \<Rightarrow> waterfallDone (Some e) w2
               | None \<Rightarrow>
                   validateProgram env argv prog
                     (\<lambda>r w3. case r of
                        Inl e \<Rightarrow> waterfallDone (Some e) w3
                      | Inr configPath \<Rightarrow>
                          setupConfigOptions env prog configPath
                            (\<lambda>err4 w4. case err4 of
                               Some e \<Rightarrow> waterfallDone (Some e) w4
                             | None \<Rightarrow> processRequest env prog waterfallDone w4) w3) w2) w1)
       init_world"

section \<open>Vocabulary of the properties\<close>

subsection \<open>Kinds of events\<close>

text \<open>
  Events that reach outside the process: file access, the configuration read, an svn
  update, an external command.
\<close>

fun outside_access :: "event \<Rightarrow> bool" where
  "outside_access (FsAccess p) = True"
| "outside_access (OptsRead p) = True"
| "outside_access (SvnUpdate p) = True"
| "outside_access (ExecFile f a opt) = True"
| "outside_access e = False"

fun update_or_build :: "event \<Rightarrow> bool" where
  "update_or_build (SvnUpdate p) = True"
| "update_or_build (ExecFile f a opt) = True"
| "update_or_build e = False"

fun is_command :: "event \<Rightarrow> bool" where
  "is_command (ExecFile f a opt) = True"
| "is_command e = False"

text \<open>
  The summary line of \<open>displayProcessTime\<close>, among the lines the script itself logs (the
  error output of a restore command is echoed as it is, and is a different event).
\<close>

fun is_summary :: "event \<Rightarrow> bool" where
  "is_summary (ConsoleLog s) = prefix ''Refresh complete in '' s"
| "is_summary e = False"

text \<open>The paths that were updated, in the order of the updates.\<close>

fun updates :: "event list \<Rightarrow> string list" where
  "updates [] = []"
| "updates (SvnUpdate p # es) = p # updates es"
| "updates (e # es) = updates es"

subsection \<open>The run up to \<open>processRequest\<close>\<close>

definition shownHeader :: "env \<Rightarrow> string list \<Rightarrow> event list" where
  "shownHeader env argv = (if headerCondition argv then headerLines env else [])"

definition configPathOf :: "Program \<Rightarrow> string" where
  "configPathOf prog = (if truthy (config prog) then toString (config prog) else ''config.json'')"

text \<open>The world in which \<open>processRequest\<close> starts, once the configuration is read.\<close>

definition startedWorld :: "env \<Rightarrow> string list \<Rightarrow> Program \<Rightarrow> Configuration \<Rightarrow> heap \<Rightarrow> world" where
  "startedWorld env argv prog cfg h =
     \<lparr>trace = shownHeader env argv @ [FsAccess (configPathOf prog), OptsRead (configPathOf prog)],
      heap = h, opts = Some cfg, startTime = None, endTime = None\<rparr>"

definition resolves :: "Configuration \<Rightarrow> string \<Rightarrow> Project option" where
  "resolves cfg n = lodash_find (projects cfg) (matchesProperty name n)"

subsection \<open>What a step leaves as it was\<close>

text \<open>
  \<open>frame w w'\<close>: the globals are those of \<open>w\<close>, and every array of \<open>w\<close> holds in \<open>w'\<close>
  what it held in \<open>w\<close> (new arrays may have been allocated after them).
\<close>

definition frame :: "world \<Rightarrow> world \<Rightarrow> bool" where
  "frame w w' =
     (opts w' = opts w \<and> startTime w' = startTime w \<and> endTime w' = endTime w \<and>
      take (length (heap w)) (heap w') = heap w)"

definition ran :: "string list \<Rightarrow> world \<Rightarrow> world \<Rightarrow> bool" where
  "ran ps w w' =
     (frame w w' \<and> take (length (trace w)) (trace w') = trace w \<and>
      updates (drop (length (trace w)) (trace w')) = ps \<and>
      \<not> list_ex is_summary (drop (length (trace w)) (trace w')))"

subsection \<open>The events of a refresh with the two-phase build\<close>

definition buildOptions :: "Project \<Rightarrow> exec_options" where
  "buildOptions proj = \<lparr>cwd = buildPath proj, maxBuffer = 1024000\<rparr>"

definition updated :: "Project \<Rightarrow> event list" where
  "updated proj =
     [ConsoleLog (''Refreshing '' @ name proj @ '':''), StdoutWrite ''  Updating local copy...'',
      SvnUpdate (path proj), StdoutWrite complete]"

definition restoreCommand :: "Project \<Rightarrow> BuildCommand \<Rightarrow> jsval list \<Rightarrow> event" where
  "restoreCommand proj nc nargs =
     ExecFile (buildFile nc) (js_splice 1 (slnFile proj) nargs) (buildOptions proj)"

definition solutionCommand :: "Project \<Rightarrow> BuildCommand \<Rightarrow> jsval list \<Rightarrow> event" where
  "solutionCommand proj bc bargs =
     ExecFile (buildFile bc) (push (slnFile proj) bargs) (buildOptions proj)"

definition restored :: "Project \<Rightarrow> BuildCommand \<Rightarrow> jsval list \<Rightarrow> string \<Rightarrow> event list" where
  "restored proj nc nargs stderr =
     [StdoutWrite ''  Restoring nuget packages...'', restoreCommand proj nc nargs] @
     (if stderr \<noteq> [] then [EchoStderr stderr] else [])"

definition rebuilding :: "event list" where
  "rebuilding = [StdoutWrite complete, StdoutWrite ''  Rebuilding solution...'']"

subsection \<open>An example installation\<close>

text \<open>
  Three projects, two of them built with \<open>msbuild\<close>; a workspace of all three and one
  with a name that is not configured. The configuration is in \<open>devtoolz.json\<close>; there is
  no \<open>config.json\<close>. The working copy of project B is locked, so its update fails.
\<close>

definition example_tools :: "string \<Rightarrow> BuildCommand option" where
  "example_tools t =
     (if t = ''msbuild'' then Some \<lparr>buildFile = ''msbuild.exe'', buildArgs = 0\<rparr>
      else if t = ''nuget'' then Some \<lparr>buildFile = ''nuget.exe'', buildArgs = 1\<rparr>
      else None)"

definition example_heap :: heap where
  "example_heap = [[JString ''/t:Rebuild''], [JString ''restore'', JString ''-NonInteractive'']]"

definition projectA :: Project where
  "projectA = \<lparr>name = ''A'', path = ''/src/a'', buildTool = ''msbuild'', buildPath = ''/src/a/sln'',
                slnFile = JString ''A.sln''\<rparr>"

definition projectB :: Project where
  "projectB = \<lparr>name = ''B'', path = ''/src/b'', buildTool = ''msbuild'', buildPath = ''/src/b/sln'',
                slnFile = JString ''B.sln''\<rparr>"

definition projectC :: Project where
  "projectC = \<lparr>name = ''C'', path = ''/src/c'', buildTool = ''make'', buildPath = ''/src/c'',
                slnFile = JUndefined\<rparr>"

definition example_config :: Configuration where
  "example_config =
     \<lparr>reposRoot = None, buildConfig = Some example_tools,
      projects = [projectA, projectB, projectC],
      workspaces = [\<lparr>ws_name = ''W'', ws_projects = [''A'', ''B'', ''C'']\<rparr>,
                    \<lparr>ws_name = ''V'', ws_projects = [''A'', ''X'']\<rparr>]\<rparr>"

definition example_env :: env where
  "example_env =
     \<lparr>version = ''0.1.0'',
      fsAccess = (\<lambda>p. p = ''devtoolz.json''),
      optsRead = (\<lambda>p. ReadLoaded example_config example_heap),
      svnUpdate = (\<lambda>t p. if p = ''/src/b'' then Some (Error ''E155004: working copy locked'') else None),
      execFile = (\<lambda>t f a opt. (None, [])),
      clock = (\<lambda>t. 0)\<rparr>"

text \<open>The same installation with every update succeeding, and with a failing restore.\<close>

definition cooperative_env :: env where
  "cooperative_env = example_env\<lparr>svnUpdate := (\<lambda>t p. None)\<rparr>"

definition failing_restore_env :: env where
  "failing_restore_env =
     example_env\<lparr>execFile := (\<lambda>t f a opt.
        if f = ''nuget.exe'' then (Some (Error ''Command failed: nuget.exe''), ''Unable to find package'')
        else (None, []))\<rparr>"

definition loaded_world :: world where
  "loaded_world = init_world\<lparr>opts := Some example_config, heap := example_heap\<rparr>"

definition build_requested :: Program where
  "build_requested = \<lparr>project = None, workspace = Some ''W'', config = None, build = True\<rparr>"


text \<open>
  A slow installation: the clock reads 0 until the first update or command has run, and
  3725000 milliseconds (62 minutes and 5 seconds) afterwards.
\<close>

definition slow_env :: env where
  "slow_env =
     cooperative_env\<lparr>clock := (\<lambda>t. if list_ex update_or_build t then 3725000 else 0)\<rparr>"

definition refresh_A :: Program where
  "refresh_A = \<lparr>project = Some ''A'', workspace = None, config = Some ''devtoolz.json'',
                 build = False\<rparr>"

text \<open>Two callbacks that return: one shows the result it was given, one logs the error.\<close>

definition report :: "js_error + 'a \<Rightarrow> world \<Rightarrow> outcome" where
  "report r w = (case r of Inl e \<Rightarrow> Return (JString (message e)) w | Inr x \<Rightarrow> Return (JBool True) w)"

definition chatty :: callback where
  "chatty err w =
     Return JUndefined
       (emits [ConsoleLog (case err of Some e \<Rightarrow> message e | None \<Rightarrow> ''done'')] w)"
section \<open>Properties\<close>

subsection \<open>The trace\<close>

lemma trace_emits [simp]: "trace (emits es w) = trace w @ es"
  and heap_emits [simp]: "heap (emits es w) = heap w"
  and opts_emits [simp]: "opts (emits es w) = opts w"
  and startTime_emits [simp]: "startTime (emits es w) = startTime w"
  and endTime_emits [simp]: "endTime (emits es w) = endTime w"
  by (simp_all add: emits_def)

lemma emits_emits [simp]: "emits es (emits es' w) = emits (es' @ es) w"
  by (simp add: emits_def)

lemma emits_Nil [simp]: "emits [] w = w"
  by (simp add: emits_def)

lemma world_eqI:
  "trace a = trace b \<Longrightarrow> heap a = heap b \<Longrightarrow> opts a = opts b \<Longrightarrow>
   startTime a = startTime b \<Longrightarrow> endTime a = endTime b \<Longrightarrow> (a :: world) = b"
  by simp

lemma callback_cong: "a = b \<Longrightarrow> (k :: callback) r a = k r b"
  by simp

subsection \<open>The header condition\<close>

lemma headerCondition_iff:
  "headerCondition argv \<longleftrightarrow>
     \<not> (''-h'' \<in> set argv \<and> ''--help'' \<in> set argv \<and> ''-V'' \<in> set argv \<and> ''--version'' \<in> set argv)"
  by (auto simp: headerCondition_def lodash_includes_def)

lemma refresh_header:
  "refresh env argv prog =
     validateProgram env argv prog
       (\<lambda>r w3. case r of
          Inl e \<Rightarrow> waterfallDone (Some e) w3
        | Inr configPath \<Rightarrow>
            setupConfigOptions env prog configPath
              (\<lambda>err4 w4. case err4 of
                 Some e \<Rightarrow> waterfallDone (Some e) w4
               | None \<Rightarrow> processRequest env prog waterfallDone w4) w3)
       (emits (shownHeader env argv) init_world)"
  by (simp add: refresh_def setupProgramInfo_def displayHeader_def shownHeader_def)

text \<open>
  Claim C9, as amended. The condition of \<open>displayHeader\<close> is a disjunction of four
  negated membership tests, so it is false only when all four of \<open>-h\<close>, \<open>--help\<close>,
  \<open>-V\<close> and \<open>--version\<close> occur in \<open>process.argv\<close> together: the header is skipped
  exactly then, and shown for every other command line, in particular when none of the
  four flags occurs.
\<close>

theorem header_shown_unless_all_four_flags:
  "headerCondition argv =
     (\<not> (''-h'' \<in> set argv \<and> ''--help'' \<in> set argv \<and> ''-V'' \<in> set argv \<and> ''--version'' \<in> set argv))
   \<and> displayHeader env argv callback w =
       callback None
         (if ''-h'' \<in> set argv \<and> ''--help'' \<in> set argv \<and> ''-V'' \<in> set argv \<and> ''--version'' \<in> set argv
          then w else emits (headerLines env) w)"
  by (simp add: headerCondition_iff displayHeader_def)

theorem header_shown_unless_all_four_flags_witness:
  "headerCondition [''node'', ''refresh.js'', ''-h'']
   \<and> \<not> headerCondition [''node'', ''refresh.js'', ''-h'', ''--help'', ''-V'', ''--version'']"
  using header_shown_unless_all_four_flags [of "[''node'', ''refresh.js'', ''-h'']"]
        header_shown_unless_all_four_flags
          [of "[''node'', ''refresh.js'', ''-h'', ''--help'', ''-V'', ''--version'']"]
  by simp

text \<open>
  The claim as stated says that the header is skipped exactly when none of the four flags
  occurs. On the command line \<open>--project A\<close> none occurs and the condition holds, so the
  header is shown.
\<close>

theorem header_skipped_when_no_flag_counterexample:
  "\<not> ((\<not> headerCondition [''node'', ''refresh.js'', ''--project'', ''A'']) =
       (\<not> lodash_includes [''node'', ''refresh.js'', ''--project'', ''A''] ''-h'' \<and>
        \<not> lodash_includes [''node'', ''refresh.js'', ''--project'', ''A''] ''--help'' \<and>
        \<not> lodash_includes [''node'', ''refresh.js'', ''--project'', ''A''] ''-V'' \<and>
        \<not> lodash_includes [''node'', ''refresh.js'', ''--project'', ''A''] ''--version''))"
  by (simp add: headerCondition_def lodash_includes_def)

subsection \<open>Validation of the command line and the configuration\<close>

lemma shownHeader_no_access: "e \<in> set (shownHeader env argv) \<Longrightarrow> \<not> outside_access e"
  by (auto simp: shownHeader_def headerLines_def split: if_splits)

text \<open>
  Claim C5. When both \<open>--project\<close> and \<open>--workspace\<close> are set (both values truthy, the
  test the script makes), the run ends in \<open>processError\<close> with the message that names the
  two options. Up to that point the process has only written the header to the console:
  it has made no file access, read no configuration (the global \<open>opts\<close> is still null),
  and run no update and no command.
\<close>

theorem both_options_usage_error:
  assumes "truthy (project prog)" and "truthy (workspace prog)"
  shows "\<exists>w. refresh env argv prog = Halt w
           \<and> trace w = shownHeader env argv @
               [ConsoleLog [],
                ConsoleLog ''Error: Options --project and --workspace cannot be used together.'',
                ConsoleLog [], ProcessExit]
           \<and> (\<forall>e \<in> set (trace w). \<not> outside_access e)
           \<and> opts w = None"
proof -
  let ?w = "emits (shownHeader env argv @
               [ConsoleLog [],
                ConsoleLog ''Error: Options --project and --workspace cannot be used together.'',
                ConsoleLog [], ProcessExit]) init_world"
  have run: "refresh env argv prog = Halt ?w"
    using assms
    by (simp add: refresh_header validateProgram_def waterfallDone_def processError_def)
  have "\<forall>e \<in> set (trace ?w). \<not> outside_access e"
    by (auto simp: init_world_def dest: shownHeader_no_access)
  moreover have "trace ?w = shownHeader env argv @
               [ConsoleLog [],
                ConsoleLog ''Error: Options --project and --workspace cannot be used together.'',
                ConsoleLog [], ProcessExit]"
    by (simp add: init_world_def)
  moreover have "opts ?w = None"
    by (simp add: init_world_def)
  ultimately show ?thesis
    using run by blast
qed

theorem both_options_usage_error_witness:
  "truthy (project \<lparr>project = Some ''A'', workspace = Some ''W'', config = None, build = False\<rparr>)
   \<and> truthy (workspace \<lparr>project = Some ''A'', workspace = Some ''W'', config = None, build = False\<rparr>)
   \<and> (\<exists>w. refresh example_env [''node'', ''refresh.js'', ''-p'', ''A'', ''-w'', ''W'']
              \<lparr>project = Some ''A'', workspace = Some ''W'', config = None, build = False\<rparr> = Halt w
          \<and> trace w = headerLines example_env @
               [ConsoleLog [],
                ConsoleLog ''Error: Options --project and --workspace cannot be used together.'',
                ConsoleLog [], ProcessExit]
          \<and> opts w = None)"
  using both_options_usage_error
    [where prog = "\<lparr>project = Some ''A'', workspace = Some ''W'', config = None, build = False\<rparr>"
       and env = example_env and argv = "[''node'', ''refresh.js'', ''-p'', ''A'', ''-w'', ''W'']"]
  by (auto simp: truthy_def shownHeader_def headerCondition_def lodash_includes_def)



text \<open>
  The stages before \<open>processRequest\<close>, in one equation: the usage errors, the access
  check, the configuration read, and the world in which \<open>processRequest\<close> starts.
\<close>

lemma validateProgram_unfold:
  "validateProgram env argv prog k w =
     (if truthy (project prog) \<and> truthy (workspace prog)
      then k (Inl (Error ''Options --project and --workspace cannot be used together.'')) w
      else if length argv \<le> 2 then k (Inl (Error ''No arguments defined.'')) w
      else if \<not> fsAccess env (configPathOf prog)
      then k (Inl (Error (''Cannot locate --config value: '' @ toString (config prog))))
             (emits [FsAccess (configPathOf prog)] w)
      else k (Inr (configPathOf prog)) (emits [FsAccess (configPathOf prog)] w))"
  by (simp add: validateProgram_def configPathOf_def Let_def)

lemma refresh_unfold:
  "refresh env argv prog =
     (let H = emits (shownHeader env argv) init_world;
          p = configPathOf prog;
          R = emits [FsAccess p, OptsRead p] (H\<lparr>opts := Some defaultOptions\<rparr>)
      in if truthy (project prog) \<and> truthy (workspace prog)
         then processError (Error ''Options --project and --workspace cannot be used together.'') H
         else if length argv \<le> 2 then processError (Error ''No arguments defined.'') H
         else if \<not> fsAccess env p
         then processError (Error (''Cannot locate --config value: '' @ toString (config prog)))
                (emits [FsAccess p] H)
         else (case optsRead env p of
                 ReadFailed e \<Rightarrow> processError e R
               | ReadThrew \<Rightarrow> throwSyntaxError R
               | ReadLoaded cfg h \<Rightarrow>
                   if build prog \<and> \<not> isDefinedAndNonNull (buildConfig cfg)
                   then processError
                          (Error (''Using option --build but no '' @ [CHR 0x22] @ ''buildConfig'' @
                                  [CHR 0x22] @ '' configuration defined.''))
                          (R\<lparr>opts := Some cfg, heap := h\<rparr>)
                   else processRequest env prog waterfallDone (startedWorld env argv prog cfg h)))"
  by (auto simp: refresh_header validateProgram_unfold setupConfigOptions_def waterfallDone_def
      startedWorld_def init_world_def emits_def Let_def
      split: read_result.splits)

lemma refresh_started:
  assumes "2 < length argv"
    and "\<not> (truthy (project prog) \<and> truthy (workspace prog))"
    and "fsAccess env (configPathOf prog)"
    and "optsRead env (configPathOf prog) = ReadLoaded cfg h"
    and "build prog \<longrightarrow> isDefinedAndNonNull (buildConfig cfg)"
  shows "refresh env argv prog =
           processRequest env prog waterfallDone (startedWorld env argv prog cfg h)"
  using assms
  by (auto simp: refresh_header validateProgram_def setupConfigOptions_def configPathOf_def
      startedWorld_def init_world_def emits_def Let_def)

lemma started_simps [simp]:
  "trace (startedWorld env argv prog cfg h) =
     shownHeader env argv @ [FsAccess (configPathOf prog), OptsRead (configPathOf prog)]"
  "opts (startedWorld env argv prog cfg h) = Some cfg"
  "heap (startedWorld env argv prog cfg h) = h"
  "startTime (startedWorld env argv prog cfg h) = None"
  "endTime (startedWorld env argv prog cfg h) = None"
  by (simp_all add: startedWorld_def)

text \<open>
  Claim C6, as amended. Neither \<open>--project\<close> nor \<open>--workspace\<close> is required. A run
  with at least one command-line argument and neither option passes \<open>validateProgram\<close>
  without a usage error; once the configuration is read (and has a \<open>buildConfig\<close> when
  \<open>--build\<close> is given) \<open>processRequest\<close> takes neither branch and never calls back: the
  run ends without an error message, without an update or a build, and without a summary.
\<close>

theorem neither_option_is_no_usage_error:
  assumes "2 < length argv"
    and "\<not> truthy (project prog)" and "\<not> truthy (workspace prog)"
    and "fsAccess env (configPathOf prog)"
    and "optsRead env (configPathOf prog) = ReadLoaded cfg h"
    and "build prog \<longrightarrow> isDefinedAndNonNull (buildConfig cfg)"
  shows "refresh env argv prog = Return JUndefined (startedWorld env argv prog cfg h)"
  using assms by (simp add: refresh_started processRequest_def andThen_def)

theorem neither_option_is_no_usage_error_witness:
  "refresh example_env [''node'', ''refresh.js'', ''-c'', ''devtoolz.json'']
     \<lparr>project = None, workspace = None, config = Some ''devtoolz.json'', build = False\<rparr> =
   Return JUndefined
     \<lparr>trace = headerLines example_env @ [FsAccess ''devtoolz.json'', OptsRead ''devtoolz.json''],
      heap = example_heap, opts = Some example_config, startTime = None, endTime = None\<rparr>"
  using neither_option_is_no_usage_error
    [where env = example_env and cfg = example_config and h = example_heap
       and argv = "[''node'', ''refresh.js'', ''-c'', ''devtoolz.json'']"
       and prog = "\<lparr>project = None, workspace = None, config = Some ''devtoolz.json'',
                     build = False\<rparr>"]
  by (simp add: truthy_def toString_def configPathOf_def example_env_def startedWorld_def
      shownHeader_def headerCondition_def lodash_includes_def)

text \<open>
  The claim as stated requires a usage error. The command line \<open>--config devtoolz.json
  --build\<close> gives neither option, and the run returns normally with nothing but the header,
  the access check and the configuration read in its trace.
\<close>

theorem neither_option_counterexample:
  "refresh example_env [''node'', ''refresh.js'', ''--config'', ''devtoolz.json'', ''--build'']
     \<lparr>project = None, workspace = None, config = Some ''devtoolz.json'', build = True\<rparr> =
   Return JUndefined
     \<lparr>trace = headerLines example_env @ [FsAccess ''devtoolz.json'', OptsRead ''devtoolz.json''],
      heap = example_heap, opts = Some example_config, startTime = None, endTime = None\<rparr>"
  by (simp add: refresh_header validateProgram_def setupConfigOptions_def processRequest_def
      andThen_def truthy_def toString_def example_env_def example_config_def
      isDefinedAndNonNull_def shownHeader_def headerCondition_def lodash_includes_def
      init_world_def emits_def Let_def)

subsection \<open>The resolver\<close>

lemma lodash_find_first:
  "\<forall>q \<in> set pre. \<not> P q \<Longrightarrow> P p \<Longrightarrow> lodash_find (pre @ p # post) P = Some p"
  by (induction pre) simp_all

lemma lodash_find_none: "\<forall>q \<in> set xs. \<not> P q \<Longrightarrow> lodash_find xs P = None"
  by (induction xs) simp_all

lemma lodash_find_Some: "lodash_find xs P = Some p \<Longrightarrow> p \<in> set xs \<and> P p"
  by (induction xs) (auto split: if_splits)

text \<open>
  Claim C7. \<open>validateTargetProject\<close> and \<open>validateTargetWorkspace\<close> hand to their callback
  the first entry of the configured sequence whose name is the requested string (equality
  of strings, so the match is exact and case-sensitive); when no entry has that name they
  hand it an error whose message contains the requested name.
\<close>

theorem resolver_first_match:
  assumes "opts w = Some cfg"
  shows "(projects cfg = pre @ p # post \<and> name p = target \<and> (\<forall>q \<in> set pre. name q \<noteq> target)
            \<longrightarrow> validateTargetProject target callback w = callback (Inr p) w)
       \<and> ((\<forall>q \<in> set (projects cfg). name q \<noteq> target)
            \<longrightarrow> validateTargetProject target callback w =
                  callback (Inl (Error (''Project '' @ target @ '' is not configured.''))) w)
       \<and> (workspaces cfg = wpre @ v # wpost \<and> ws_name v = target \<and>
            (\<forall>q \<in> set wpre. ws_name q \<noteq> target)
            \<longrightarrow> validateTargetWorkspace target wcallback w = wcallback (Inr v) w)
       \<and> ((\<forall>q \<in> set (workspaces cfg). ws_name q \<noteq> target)
            \<longrightarrow> validateTargetWorkspace target wcallback w =
                  wcallback (Inl (Error (''Workspace '' @ target @ '' is not configured.''))) w)"
proof (intro conjI impI)
  assume "projects cfg = pre @ p # post \<and> name p = target \<and> (\<forall>q \<in> set pre. name q \<noteq> target)"
  then have "lodash_find (projects cfg) (matchesProperty name target) = Some p"
    by (simp add: lodash_find_first matchesProperty_def)
  with assms show "validateTargetProject target callback w = callback (Inr p) w"
    by (simp add: validateTargetProject_def)
next
  assume "\<forall>q \<in> set (projects cfg). name q \<noteq> target"
  then have "lodash_find (projects cfg) (matchesProperty name target) = None"
    by (simp add: lodash_find_none matchesProperty_def)
  with assms show "validateTargetProject target callback w =
      callback (Inl (Error (''Project '' @ target @ '' is not configured.''))) w"
    by (simp add: validateTargetProject_def)
next
  assume "workspaces cfg = wpre @ v # wpost \<and> ws_name v = target \<and>
            (\<forall>q \<in> set wpre. ws_name q \<noteq> target)"
  then have "lodash_find (workspaces cfg) (matchesProperty ws_name target) = Some v"
    by (simp add: lodash_find_first matchesProperty_def)
  with assms show "validateTargetWorkspace target wcallback w = wcallback (Inr v) w"
    by (simp add: validateTargetWorkspace_def)
next
  assume "\<forall>q \<in> set (workspaces cfg). ws_name q \<noteq> target"
  then have "lodash_find (workspaces cfg) (matchesProperty ws_name target) = None"
    by (simp add: lodash_find_none matchesProperty_def)
  with assms show "validateTargetWorkspace target wcallback w =
      wcallback (Inl (Error (''Workspace '' @ target @ '' is not configured.''))) w"
    by (simp add: validateTargetWorkspace_def)
qed

theorem resolver_first_match_witness:
  "opts loaded_world = Some example_config
   \<and> validateTargetProject ''B'' report loaded_world = Return (JBool True) loaded_world
   \<and> validateTargetProject ''b'' report loaded_world =
       Return (JString ''Project b is not configured.'') loaded_world
   \<and> validateTargetWorkspace ''V'' report loaded_world = Return (JBool True) loaded_world
   \<and> validateTargetWorkspace ''X'' report loaded_world =
       Return (JString ''Workspace X is not configured.'') loaded_world"
  using resolver_first_match
     [where w = loaded_world and cfg = example_config and pre = "[projectA]" and p = projectB
        and post = "[projectC]" and target = "''B''" and wpre = "[\<lparr>ws_name = ''W'', ws_projects = [''A'', ''B'', ''C'']\<rparr>]"
        and v = "\<lparr>ws_name = ''V'', ws_projects = [''A'', ''X'']\<rparr>" and wpost = "[]"
        and callback = report and wcallback = report]
    resolver_first_match
     [where w = loaded_world and cfg = example_config and pre = "[]" and p = projectA
        and post = "[projectB, projectC]" and target = "''b''" and wpre = "[]"
        and v = "\<lparr>ws_name = ''W'', ws_projects = [''A'', ''B'', ''C'']\<rparr>" and wpost = "[\<lparr>ws_name = ''V'', ws_projects = [''A'', ''X'']\<rparr>]"
        and callback = report and wcallback = report]
    resolver_first_match
     [where w = loaded_world and cfg = example_config and pre = "[]" and p = projectA
        and post = "[projectB, projectC]" and target = "''V''" and wpre = "[\<lparr>ws_name = ''W'', ws_projects = [''A'', ''B'', ''C'']\<rparr>]"
        and v = "\<lparr>ws_name = ''V'', ws_projects = [''A'', ''X'']\<rparr>" and wpost = "[]"
        and callback = report and wcallback = report]
    resolver_first_match
     [where w = loaded_world and cfg = example_config and pre = "[]" and p = projectA
        and post = "[projectB, projectC]" and target = "''X''" and wpre = "[]"
        and v = "\<lparr>ws_name = ''W'', ws_projects = [''A'', ''B'', ''C'']\<rparr>" and wpost = "[\<lparr>ws_name = ''V'', ws_projects = [''A'', ''X'']\<rparr>]"
        and callback = report and wcallback = report]
  by (simp add: loaded_world_def example_config_def projectA_def projectB_def projectC_def
      report_def init_world_def)

subsection \<open>What one refresh may change\<close>

text \<open>
  \<open>ran ps w w'\<close>: from \<open>w\<close> the script reached \<open>w'\<close> by appending events, among them the
  updates of the paths \<open>ps\<close> in this order and no summary line, leaving the globals and
  every array that existed in \<open>w\<close> as they were. The rules below say that every way out of
  a step (a call of the callback, or the end of the process) is reached by such a run.
\<close>

lemma updates_append [simp]: "updates (es @ fs) = updates es @ updates fs"
  by (induction es rule: updates.induct) simp_all

lemma frame_heap_prefix: "frame w w' \<Longrightarrow> a < length (heap w) \<Longrightarrow> heap w' ! a = heap w ! a"
  by (metis frame_def nth_take)

lemma ranI:
  "frame w w' \<Longrightarrow> trace w' = trace w @ es \<Longrightarrow> updates es = ps \<Longrightarrow> \<not> list_ex is_summary es \<Longrightarrow>
   ran ps w w'"
  by (simp add: ran_def)

lemma ranE:
  assumes "ran ps w w'"
  obtains es where "frame w w'" "trace w' = trace w @ es" "updates es = ps"
    "\<not> list_ex is_summary es"
  using assms by (metis append_take_drop_id ran_def)

lemma frame_refl [simp]: "frame w w"
  by (simp add: frame_def)

lemma frame_trans: "frame w w1 \<Longrightarrow> frame w1 w2 \<Longrightarrow> frame w w2"
  unfolding frame_def
  by (metis min.absorb2 nat_le_linear take_all_iff take_take length_take min.cobounded1)

lemma ran_refl [simp]: "ran [] w w"
  by (simp add: ran_def)

lemma ran_trans: "ran ps w w1 \<Longrightarrow> ran qs w1 w2 \<Longrightarrow> ran (ps @ qs) w w2"
proof -
  assume a: "ran ps w w1" and b: "ran qs w1 w2"
  from a obtain es where 1: "frame w w1" "trace w1 = trace w @ es" "updates es = ps"
    "\<not> list_ex is_summary es" by (rule ranE)
  from b obtain fs where 2: "frame w1 w2" "trace w2 = trace w1 @ fs" "updates fs = qs"
    "\<not> list_ex is_summary fs" by (rule ranE)
  show ?thesis
  proof (rule ranI)
    show "frame w w2" using 1 2 by (blast intro: frame_trans)
    show "trace w2 = trace w @ (es @ fs)" using 1 2 by simp
    show "updates (es @ fs) = ps @ qs" using 1 2 by simp
    show "\<not> list_ex is_summary (es @ fs)" using 1 2 by (auto simp: list_ex_iff)
  qed
qed

lemma ran_step: "ran [] w W \<Longrightarrow> ran ps W w' \<Longrightarrow> ran ps w w'"
  using ran_trans [of "[]" w W ps w'] by simp

lemma rebuildSolution_wp:
  assumes k: "\<And>r w'. ran [] w w' \<Longrightarrow> Q (k r w')"
    and h: "\<And>w'. ran [] w w' \<Longrightarrow> Q (Halt w')"
  shows "Q (rebuildSolution env bc options k w)"
  unfolding rebuildSolution_def throwTypeError_def Let_def
  by (auto split: option.splits prod.splits intro!: k h simp: ran_def frame_def)

lemma buildProject_wp:
  assumes k: "\<And>r w'. ran [] w w' \<Longrightarrow> Q (k r w')"
    and h: "\<And>w'. ran [] w w' \<Longrightarrow> Q (Halt w')"
  shows "Q (buildProject env proj k w)"
proof -
  have step: "Q (rebuildSolution env bc options k W)" if "ran [] w W" for bc options W
  proof (rule rebuildSolution_wp)
    fix r w' assume "ran [] W w'"
    with that have "ran [] w w'" by (rule ran_step)
    then show "Q (k r w')" by (rule k)
  next
    fix w' assume "ran [] W w'"
    with that have "ran [] w w'" by (rule ran_step)
    then show "Q (Halt w')" by (rule h)
  qed
  show ?thesis
    unfolding buildProject_def throwTypeError_def Let_def lodash_clone_def
    by (auto split: option.splits prod.splits intro!: k h step simp: ran_def frame_def)
qed

lemma refreshTargetProject_wp:
  assumes k: "\<And>r w'. ran [path proj] w w' \<Longrightarrow> Q (k r w')"
    and h: "\<And>w'. ran [path proj] w w' \<Longrightarrow> Q (Halt w')"
  shows "Q (refreshTargetProject env prog proj k w)"
proof -
  let ?W = "emits [ConsoleLog (''Refreshing '' @ name proj @ '':''),
                   StdoutWrite ''  Updating local copy...'', SvnUpdate (path proj),
                   StdoutWrite complete] w"
  have W: "ran [path proj] w ?W"
    by (simp add: ran_def frame_def)
  have step: "Q (buildProject env proj k ?W)"
  proof (rule buildProject_wp)
    fix r w' assume "ran [] ?W w'"
    with W have "ran ([path proj] @ []) w w'" by (rule ran_trans)
    then show "Q (k r w')" using k by simp
  next
    fix w' assume "ran [] ?W w'"
    with W have "ran ([path proj] @ []) w w'" by (rule ran_trans)
    then show "Q (Halt w')" using h by simp
  qed
  show ?thesis
    unfolding refreshTargetProject_def Let_def
    using step
    by (auto split: option.splits intro!: k simp: ran_def frame_def)
qed

lemma eachSeries_wp:
  assumes k: "\<And>r w' done. ran (map path done) w w' \<Longrightarrow> prefix done ps \<Longrightarrow>
                (r = None \<longrightarrow> done = ps) \<Longrightarrow> Q (k r w')"
    and h: "\<And>w' done. ran (map path done) w w' \<Longrightarrow> prefix done ps \<Longrightarrow> Q (Halt w')"
  shows "Q (async_eachSeries ps (refreshTargetProject env prog) k w)"
  using assms
proof (induction ps arbitrary: w)
  case Nil
  have "Q (k None w)" by (rule Nil(1) [of "[]"]) simp_all
  then show ?case by simp
next
  case (Cons p ps)
  show ?case
    unfolding async_eachSeries.simps
  proof (rule refreshTargetProject_wp)
    fix r w1 assume w1: "ran [path p] w w1"
    show "Q (case r of None \<Rightarrow> async_eachSeries ps (refreshTargetProject env prog) k w1
                    | Some e \<Rightarrow> k (Some e) w1)"
    proof (cases r)
      case (Some e)
      have "Q (k (Some e) w1)" by (rule Cons.prems(1) [of "[p]"]) (simp_all add: w1)
      with Some show ?thesis by simp
    next
      case None
      have "Q (async_eachSeries ps (refreshTargetProject env prog) k w1)"
      proof (rule Cons.IH)
        fix r' :: "js_error option" and w' "done"
        assume d: "ran (map path done) w1 w'" "prefix done ps" "r' = None \<longrightarrow> done = ps"
        from w1 d(1) have "ran ([path p] @ map path done) w w'" by (rule ran_trans)
        then show "Q (k r' w')"
          using d by (intro Cons.prems(1) [of "p # done"]) simp_all
      next
        fix w' "done"
        assume d: "ran (map path done) w1 w'" "prefix done ps"
        from w1 d(1) have "ran ([path p] @ map path done) w w'" by (rule ran_trans)
        then show "Q (Halt w')"
          using d by (intro Cons.prems(2) [of "p # done"]) simp_all
      qed
      with None show ?thesis by simp
    qed
  next
    fix w1 assume "ran [path p] w w1"
    then show "Q (Halt w1)" by (intro Cons.prems(2) [of "[p]"]) simp_all
  qed
qed

lemma refreshTargetProject_ran:
  "\<exists>r w'. (refreshTargetProject env prog proj k w = k r w' \<or>
            refreshTargetProject env prog proj k w = Halt w') \<and> ran [path proj] w w'"
  by (rule refreshTargetProject_wp) blast+

subsection \<open>Expanding a workspace\<close>

lemma resolveIteratee_found:
  "opts w = Some cfg \<Longrightarrow> lodash_find (projects cfg) (matchesProperty name r) = Some p \<Longrightarrow>
   resolveIteratee k r acc w = (acc @ [p], Return JUndefined w)"
  by (simp add: resolveIteratee_def)

lemma resolveIteratee_missing:
  "opts w = Some cfg \<Longrightarrow> lodash_find (projects cfg) (matchesProperty name r) = None \<Longrightarrow>
   resolveIteratee k r acc w =
     (acc, k (Some (Error (''Workspace project '' @ r @ '' is not configured.''))) w)"
  by (simp add: resolveIteratee_def)

lemma forEach_unresolved:
  assumes "opts w = Some cfg"
    and "n \<in> set refs"
    and "lodash_find (projects cfg) (matchesProperty name n) = None"
    and halts: "\<And>e w'. \<exists>w''. k (Some e) w' = Halt w''"
  shows "\<exists>x acc'. x \<in> set refs \<and> lodash_find (projects cfg) (matchesProperty name x) = None \<and>
           lodash_forEach refs (resolveIteratee k) acc w =
             (acc', k (Some (Error (''Workspace project '' @ x @ '' is not configured.''))) w)"
  using assms(2)
proof (induction refs arbitrary: acc)
  case Nil
  then show ?case by simp
next
  case (Cons r rs)
  show ?case
  proof (cases "lodash_find (projects cfg) (matchesProperty name r)")
    case None
    obtain w'' where
      "k (Some (Error (''Workspace project '' @ r @ '' is not configured.''))) w = Halt w''"
      using halts by blast
    with None assms(1) show ?thesis
      by (intro exI [of _ r] exI [of _ acc]) (simp add: resolveIteratee_missing)
  next
    case (Some p)
    with assms(3) Cons.prems have "n \<in> set rs" by auto
    from Cons.IH [OF this, of "acc @ [p]"] obtain x acc' where
      "x \<in> set rs" "lodash_find (projects cfg) (matchesProperty name x) = None"
      "lodash_forEach rs (resolveIteratee k) (acc @ [p]) w =
         (acc', k (Some (Error (''Workspace project '' @ x @ '' is not configured.''))) w)"
      by blast
    with Some assms(1) show ?thesis
      by (intro exI [of _ x] exI [of _ acc']) (simp add: resolveIteratee_found)
  qed
qed

lemma forEach_all_resolved:
  assumes "opts w = Some cfg"
  shows "map (resolves cfg) refs = map Some ps \<Longrightarrow>
         lodash_forEach refs (resolveIteratee k) acc w = (acc @ ps, Return JUndefined w)"
proof (induction refs arbitrary: acc ps)
  case Nil
  then show ?case by simp
next
  case (Cons r rs)
  then obtain p qs where ps: "ps = p # qs" "resolves cfg r = Some p"
    "map (resolves cfg) rs = map Some qs"
    by (cases ps) auto
  from Cons.IH [OF ps(3), of "acc @ [p]"] ps assms show ?case
    by (simp add: resolveIteratee_found resolves_def)
qed

lemma all_resolved_list:
  "\<forall>n \<in> set refs. resolves cfg n \<noteq> None \<Longrightarrow> \<exists>ps. map (resolves cfg) refs = map Some ps"
proof (induction refs)
  case Nil
  then show ?case by simp
next
  case (Cons r rs)
  then obtain ps p where "map (resolves cfg) rs = map Some ps" "resolves cfg r = Some p"
    by auto
  then have "map (resolves cfg) (r # rs) = map Some (p # ps)" by simp
  then show ?case by blast
qed

lemma callback_eta:
  "(\<lambda>err w''. case err of Some e \<Rightarrow> k (Some e) w'' | None \<Rightarrow> k None w'') = (k :: callback)"
  by (intro ext) (simp split: option.splits)

lemma refreshTargetWorkspace_resolved:
  assumes "opts w = Some cfg" and "map (resolves cfg) (ws_projects wsp) = map Some ps"
  shows "refreshTargetWorkspace env prog wsp k w =
           async_eachSeries ps (refreshTargetProject env prog) k w"
  using forEach_all_resolved [OF assms, of k "[]"]
  by (simp add: refreshTargetWorkspace_def callback_eta)

lemma refreshed_error: "refreshed env k (Some e) w = k (Some e) w"
  by (simp add: refreshed_def)

lemma waterfallDone_error:
  "waterfallDone (Some e) w =
     Halt (emits [ConsoleLog [], ConsoleLog (''Error: '' @ message e), ConsoleLog [], ProcessExit] w)"
  by (simp add: waterfallDone_def processError_def)

lemma processRequest_workspace:
  assumes "\<not> truthy (project prog)" and "truthy (workspace prog)" and "opts w = Some cfg"
    and "lodash_find (workspaces cfg) (matchesProperty ws_name (toString (workspace prog))) = Some wsp"
  shows "processRequest env prog k w =
           refreshTargetWorkspace env prog wsp (refreshed env k)
             (emits [ConsoleLog []] (w\<lparr>startTime := Some (clock env (trace w))\<rparr>))"
  using assms
  by (simp add: processRequest_def andThen_def validateTargetWorkspace_def Let_def)

lemma processRequest_project:
  assumes "truthy (project prog)" and "\<not> truthy (workspace prog)" and "opts w = Some cfg"
    and "lodash_find (projects cfg) (matchesProperty name (toString (project prog))) = Some proj"
  shows "processRequest env prog k w =
           andThen (refreshTargetProject env prog proj (refreshed env k)
                      (emits [ConsoleLog []] (w\<lparr>startTime := Some (clock env (trace w))\<rparr>)))
             (\<lambda>w0. Return JUndefined w0)"
  using assms
  by (simp add: processRequest_def validateTargetProject_def Let_def)




text \<open>
  The run fails fast because the callback it passes ends the process. The iteratee leaves
  the loop only by returning \<open>false\<close>; with a callback that returns, \<open>_.forEach\<close> goes on
  and \<open>async.eachSeries\<close> refreshes the projects that did resolve.
\<close>

lemma returning_callback_goes_on:
  "refreshTargetWorkspace example_env
     \<lparr>project = None, workspace = Some ''V'', config = None, build = False\<rparr>
     \<lparr>ws_name = ''V'', ws_projects = [''A'', ''X'']\<rparr> chatty loaded_world =
   Return JUndefined
     (emits [ConsoleLog ''Workspace project X is not configured.'',
             ConsoleLog ''Refreshing A:'', StdoutWrite ''  Updating local copy...'',
             SvnUpdate ''/src/a'', StdoutWrite complete, ConsoleLog [],
             ConsoleLog ''done''] loaded_world)"
  by (simp add: refreshTargetWorkspace_def resolveIteratee_def refreshTargetProject_def
      chatty_def loaded_world_def init_world_def example_config_def example_env_def
      matchesProperty_def projectA_def projectB_def projectC_def Let_def emits_def)

subsection \<open>The two-phase build\<close>

lemma buildProject_msbuild:
  assumes "opts w = Some cfg" and "buildConfig cfg = Some tools"
    and "buildTool proj = ''msbuild''"
    and "tools ''msbuild'' = Some bc" and "tools ''nuget'' = Some nc"
    and "buildArgs bc < length (heap w)" and "buildArgs nc < length (heap w)"
    and "bargs = heap w ! buildArgs bc" and "nargs = heap w ! buildArgs nc"
    and r: "execFile env (trace w @ [StdoutWrite ''  Restoring nuget packages...''])
              (buildFile nc) (js_splice 1 (slnFile proj) nargs) (buildOptions proj) = (rerr, stderr)"
    and b: "execFile env (trace w @ restored proj nc nargs stderr @ rebuilding)
              (buildFile bc) (push (slnFile proj) bargs) (buildOptions proj) = (berr, bstderr)"
  shows "buildProject env proj k w =
      (case rerr of
         Some e \<Rightarrow>
           k (Some e) (w\<lparr>trace := trace w @ restored proj nc nargs stderr,
                          heap := heap w @ [bargs, js_splice 1 (slnFile proj) nargs]\<rparr>)
       | None \<Rightarrow>
          (case berr of
             Some e \<Rightarrow>
               k (Some e)
                 (w\<lparr>trace := trace w @ restored proj nc nargs stderr @ rebuilding @
                                [solutionCommand proj bc bargs],
                     heap := heap w @ [push (slnFile proj) bargs,
                                       js_splice 1 (slnFile proj) nargs]\<rparr>)
           | None \<Rightarrow>
               k None
                 (w\<lparr>trace := trace w @ restored proj nc nargs stderr @ rebuilding @
                                [solutionCommand proj bc bargs, StdoutWrite complete, ConsoleLog []],
                     heap := heap w @ [push (slnFile proj) bargs,
                                       js_splice 1 (slnFile proj) nargs]\<rparr>)))"
proof -
  have o: "\<lparr>cwd = buildPath proj, maxBuffer = 1000 * 1024\<rparr> = buildOptions proj"
    by (simp add: buildOptions_def)
  show ?thesis
    using assms
    unfolding buildProject_def rebuildSolution_def lodash_clone_def Let_def o restored_def
      rebuilding_def restoreCommand_def solutionCommand_def
    by (cases rerr; cases berr; cases "stderr = []")
       (auto simp: emits_def nth_append list_update_append intro!: callback_cong world_eqI)
qed

lemma refreshTargetProject_msbuild:
  assumes "build prog" and "buildTool proj = ''msbuild''"
    and "opts w = Some cfg" and "buildConfig cfg = Some tools"
    and "tools ''msbuild'' = Some bc" and "tools ''nuget'' = Some nc"
    and "buildArgs bc < length (heap w)" and "buildArgs nc < length (heap w)"
    and "bargs = heap w ! buildArgs bc" and "nargs = heap w ! buildArgs nc"
    and u: "svnUpdate env (trace w @ [ConsoleLog (''Refreshing '' @ name proj @ '':''),
                                      StdoutWrite ''  Updating local copy...'']) (path proj) = None"
    and r: "execFile env
              (trace w @ updated proj @ [StdoutWrite ''  Restoring nuget packages...''])
              (buildFile nc) (js_splice 1 (slnFile proj) nargs) (buildOptions proj) = (rerr, stderr)"
    and b: "execFile env (trace w @ updated proj @ restored proj nc nargs stderr @ rebuilding)
              (buildFile bc) (push (slnFile proj) bargs) (buildOptions proj) = (berr, bstderr)"
  shows "refreshTargetProject env prog proj k w =
      (case rerr of
         Some e \<Rightarrow>
           k (Some e) (w\<lparr>trace := trace w @ updated proj @ restored proj nc nargs stderr,
                          heap := heap w @ [bargs, js_splice 1 (slnFile proj) nargs]\<rparr>)
       | None \<Rightarrow>
          (case berr of
             Some e \<Rightarrow>
               k (Some e)
                 (w\<lparr>trace := trace w @ updated proj @ restored proj nc nargs stderr @
                                rebuilding @ [solutionCommand proj bc bargs],
                     heap := heap w @ [push (slnFile proj) bargs,
                                       js_splice 1 (slnFile proj) nargs]\<rparr>)
           | None \<Rightarrow>
               k None
                 (w\<lparr>trace := trace w @ updated proj @ restored proj nc nargs stderr @
                                rebuilding @
                                [solutionCommand proj bc bargs, StdoutWrite complete, ConsoleLog []],
                     heap := heap w @ [push (slnFile proj) bargs,
                                       js_splice 1 (slnFile proj) nargs]\<rparr>)))"
proof -
  let ?W = "emits (updated proj) w"
  have step: "refreshTargetProject env prog proj k w = buildProject env proj k ?W"
    using assms(1) u by (simp add: refreshTargetProject_def updated_def Let_def)
  have "buildProject env proj k ?W =
      (case rerr of
         Some e \<Rightarrow>
           k (Some e) (?W\<lparr>trace := trace ?W @ restored proj nc nargs stderr,
                          heap := heap ?W @ [bargs, js_splice 1 (slnFile proj) nargs]\<rparr>)
       | None \<Rightarrow>
          (case berr of
             Some e \<Rightarrow>
               k (Some e)
                 (?W\<lparr>trace := trace ?W @ restored proj nc nargs stderr @ rebuilding @
                                [solutionCommand proj bc bargs],
                     heap := heap ?W @ [push (slnFile proj) bargs,
                                       js_splice 1 (slnFile proj) nargs]\<rparr>)
           | None \<Rightarrow>
               k None
                 (?W\<lparr>trace := trace ?W @ restored proj nc nargs stderr @ rebuilding @
                                [solutionCommand proj bc bargs, StdoutWrite complete, ConsoleLog []],
                     heap := heap ?W @ [push (slnFile proj) bargs,
                                       js_splice 1 (slnFile proj) nargs]\<rparr>)))"
    using assms(2-10) r b
    by (intro buildProject_msbuild [where cfg = cfg and tools = tools]) simp_all
  then show ?thesis
    unfolding step by (simp add: emits_def split: option.splits)
qed

lemma commands_updated [simp]: "filter is_command (updated proj) = []"
  by (simp add: updated_def)

lemma commands_restored [simp]:
  "filter is_command (restored proj nc nargs stderr) = [restoreCommand proj nc nargs]"
  by (simp add: restored_def restoreCommand_def)

lemma commands_rebuilding [simp]: "filter is_command rebuilding = []"
  by (simp add: rebuilding_def)

lemma is_command_solution [simp]: "is_command (solutionCommand proj bc bargs)"
  by (simp add: solutionCommand_def)

text \<open>
  Claim C2. For a project whose \<open>buildTool\<close> is \<open>msbuild\<close>, with \<open>--build\<close> and both
  templates configured: after a successful update the restore command runs first, with
  the solution file spliced in at index 1 of the restore template's arguments (so it is
  the second argument whenever the template has a first one); if the restore fails its
  error goes to the callback and no build command runs; otherwise the build command runs
  next, with the solution file appended to the build template's arguments.
\<close>

theorem msbuild_restore_before_build:
  assumes "build prog" and "buildTool proj = ''msbuild''"
    and "opts w = Some cfg" and "buildConfig cfg = Some tools"
    and "tools ''msbuild'' = Some bc" and "tools ''nuget'' = Some nc"
    and "buildArgs bc < length (heap w)" and "buildArgs nc < length (heap w)"
    and "bargs = heap w ! buildArgs bc" and "nargs = heap w ! buildArgs nc"
    and "svnUpdate env (trace w @ [ConsoleLog (''Refreshing '' @ name proj @ '':''),
                                   StdoutWrite ''  Updating local copy...'']) (path proj) = None"
    and "execFile env
           (trace w @ updated proj @ [StdoutWrite ''  Restoring nuget packages...''])
           (buildFile nc) (js_splice 1 (slnFile proj) nargs) (buildOptions proj) = (rerr, stderr)"
    and "execFile env (trace w @ updated proj @ restored proj nc nargs stderr @ rebuilding)
           (buildFile bc) (push (slnFile proj) bargs) (buildOptions proj) = (berr, bstderr)"
  shows "(\<exists>w'. refreshTargetProject env prog proj k w =
                 k (case rerr of Some e \<Rightarrow> Some e | None \<Rightarrow> berr) w'
            \<and> trace w' = trace w @ updated proj @ restored proj nc nargs stderr @
                 (case rerr of
                    Some e \<Rightarrow> []
                  | None \<Rightarrow> rebuilding @ solutionCommand proj bc bargs #
                             (case berr of Some e \<Rightarrow> []
                                         | None \<Rightarrow> [StdoutWrite complete, ConsoleLog []]))
            \<and> filter is_command (drop (length (trace w)) (trace w')) =
                 (case rerr of
                    Some e \<Rightarrow>
                      [ExecFile (buildFile nc) (take 1 nargs @ slnFile proj # drop 1 nargs)
                         (buildOptions proj)]
                  | None \<Rightarrow>
                      [ExecFile (buildFile nc) (take 1 nargs @ slnFile proj # drop 1 nargs)
                         (buildOptions proj),
                       ExecFile (buildFile bc) (bargs @ [slnFile proj]) (buildOptions proj)]))
       \<and> (nargs \<noteq> [] \<longrightarrow> js_splice 1 (slnFile proj) nargs ! 1 = slnFile proj
                         \<and> js_splice 1 (slnFile proj) nargs ! 0 = nargs ! 0)
       \<and> last (push (slnFile proj) bargs) = slnFile proj"
proof -
  note run = refreshTargetProject_msbuild [OF assms, of k]
  have cmds: "restoreCommand proj nc nargs =
                ExecFile (buildFile nc) (take 1 nargs @ slnFile proj # drop 1 nargs) (buildOptions proj)"
             "solutionCommand proj bc bargs =
                ExecFile (buildFile bc) (bargs @ [slnFile proj]) (buildOptions proj)"
    by (simp_all add: restoreCommand_def solutionCommand_def js_splice_def push_def)
  have 1: "\<exists>w'. refreshTargetProject env prog proj k w =
                 k (case rerr of Some e \<Rightarrow> Some e | None \<Rightarrow> berr) w'
            \<and> trace w' = trace w @ updated proj @ restored proj nc nargs stderr @
                 (case rerr of
                    Some e \<Rightarrow> []
                  | None \<Rightarrow> rebuilding @ solutionCommand proj bc bargs #
                             (case berr of Some e \<Rightarrow> []
                                         | None \<Rightarrow> [StdoutWrite complete, ConsoleLog []]))
            \<and> filter is_command (drop (length (trace w)) (trace w')) =
                 (case rerr of
                    Some e \<Rightarrow>
                      [ExecFile (buildFile nc) (take 1 nargs @ slnFile proj # drop 1 nargs)
                         (buildOptions proj)]
                  | None \<Rightarrow>
                      [ExecFile (buildFile nc) (take 1 nargs @ slnFile proj # drop 1 nargs)
                         (buildOptions proj),
                       ExecFile (buildFile bc) (bargs @ [slnFile proj]) (buildOptions proj)])"
  proof (cases rerr)
    case (Some e)
    with run show ?thesis
      by (intro exI [of _ "w\<lparr>trace := trace w @ updated proj @ restored proj nc nargs stderr,
                            heap := heap w @ [bargs, js_splice 1 (slnFile proj) nargs]\<rparr>"])
         (simp add: cmds)
  next
    case None
    show ?thesis
    proof (cases berr)
      case (Some e)
      with None run show ?thesis
        by (intro exI [of _ "w\<lparr>trace := trace w @ updated proj @ restored proj nc nargs stderr @
                                rebuilding @ [solutionCommand proj bc bargs],
                     heap := heap w @ [push (slnFile proj) bargs,
                                       js_splice 1 (slnFile proj) nargs]\<rparr>"])
           (simp add: cmds)
    next
      case berr: None
      with None run show ?thesis
        by (intro exI [of _ "w\<lparr>trace := trace w @ updated proj @ restored proj nc nargs stderr @
                                rebuilding @
                                [solutionCommand proj bc bargs, StdoutWrite complete, ConsoleLog []],
                     heap := heap w @ [push (slnFile proj) bargs,
                                       js_splice 1 (slnFile proj) nargs]\<rparr>"])
           (simp add: cmds)
    qed
  qed
  have 2: "nargs \<noteq> [] \<longrightarrow> js_splice 1 (slnFile proj) nargs ! 1 = slnFile proj
                         \<and> js_splice 1 (slnFile proj) nargs ! 0 = nargs ! 0"
    by (cases nargs) (simp_all add: js_splice_def)
  have 3: "last (push (slnFile proj) bargs) = slnFile proj"
    by (simp add: push_def)
  from 1 2 3 show ?thesis by blast
qed

lemma example_facts:
  "build build_requested"
  "buildTool projectA = ''msbuild''"
  "opts loaded_world = Some example_config"
  "buildConfig example_config = Some example_tools"
  "example_tools ''msbuild'' = Some \<lparr>buildFile = ''msbuild.exe'', buildArgs = 0\<rparr>"
  "example_tools ''nuget'' = Some \<lparr>buildFile = ''nuget.exe'', buildArgs = 1\<rparr>"
  "buildArgs \<lparr>buildFile = ''msbuild.exe'', buildArgs = 0\<rparr> < length (heap loaded_world)"
  "buildArgs \<lparr>buildFile = ''nuget.exe'', buildArgs = 1\<rparr> < length (heap loaded_world)"
  "[JString ''/t:Rebuild''] = heap loaded_world ! buildArgs \<lparr>buildFile = ''msbuild.exe'', buildArgs = 0\<rparr>"
  "[JString ''restore'', JString ''-NonInteractive''] =
     heap loaded_world ! buildArgs \<lparr>buildFile = ''nuget.exe'', buildArgs = 1\<rparr>"
  by (simp_all add: build_requested_def projectA_def loaded_world_def init_world_def
      example_config_def example_tools_def example_heap_def)

theorem msbuild_restore_before_build_witness:
  "(\<exists>w'. refreshTargetProject example_env build_requested projectA chatty loaded_world =
            chatty None w'
        \<and> filter is_command (drop (length (trace loaded_world)) (trace w')) =
            [ExecFile ''nuget.exe'' [JString ''restore'', JString ''A.sln'', JString ''-NonInteractive'']
               \<lparr>cwd = ''/src/a/sln'', maxBuffer = 1024000\<rparr>,
             ExecFile ''msbuild.exe'' [JString ''/t:Rebuild'', JString ''A.sln'']
               \<lparr>cwd = ''/src/a/sln'', maxBuffer = 1024000\<rparr>])
   \<and> (\<exists>w'. refreshTargetProject failing_restore_env build_requested projectA chatty loaded_world =
            chatty (Some (Error ''Command failed: nuget.exe'')) w'
        \<and> filter is_command (drop (length (trace loaded_world)) (trace w')) =
            [ExecFile ''nuget.exe'' [JString ''restore'', JString ''A.sln'', JString ''-NonInteractive'']
               \<lparr>cwd = ''/src/a/sln'', maxBuffer = 1024000\<rparr>])"
proof -
  have u: "svnUpdate example_env t (path projectA) = None" for t
    by (simp add: example_env_def projectA_def)
  have u': "svnUpdate failing_restore_env t (path projectA) = None" for t
    by (simp add: failing_restore_env_def example_env_def projectA_def)
  have x: "execFile example_env t f a opt = (None, [])" for t f a opt
    by (simp add: example_env_def)
  have r': "execFile failing_restore_env t (buildFile \<lparr>buildFile = ''nuget.exe'', buildArgs = 1\<rparr>)
              a opt = (Some (Error ''Command failed: nuget.exe''), ''Unable to find package'')"
    for t a opt
    by (simp add: failing_restore_env_def)
  have b': "execFile failing_restore_env t (buildFile \<lparr>buildFile = ''msbuild.exe'', buildArgs = 0\<rparr>)
              a opt = (None, [])" for t a opt
    by (simp add: failing_restore_env_def)
  note ok = msbuild_restore_before_build [OF example_facts u x x, of chatty]
  note failing = msbuild_restore_before_build [OF example_facts u' r' b', of chatty]
  have sln: "slnFile projectA = JString ''A.sln''"
    "buildOptions projectA = \<lparr>cwd = ''/src/a/sln'', maxBuffer = 1024000\<rparr>"
    by (simp_all add: projectA_def buildOptions_def)
  from ok failing show ?thesis
    by (simp add: sln) blast
qed

lemma refreshTargetProject_msbuild_ok:
  assumes "build prog" and "buildTool proj = ''msbuild''"
    and "opts w = Some cfg" and "buildConfig cfg = Some tools"
    and "tools ''msbuild'' = Some bc" and "tools ''nuget'' = Some nc"
    and "buildArgs bc < length (heap w)" and "buildArgs nc < length (heap w)"
    and "bargs = heap w ! buildArgs bc" and "nargs = heap w ! buildArgs nc"
    and ok1: "\<And>t p. svnUpdate env t p = None"
    and ok2: "\<And>t f a opt. fst (execFile env t f a opt) = None"
  shows "\<exists>w' es. refreshTargetProject env prog proj k w = k None w'
           \<and> opts w' = Some cfg
           \<and> heap w' = heap w @ [push (slnFile proj) bargs, js_splice 1 (slnFile proj) nargs]
           \<and> trace w' = trace w @ es
           \<and> filter is_command es = [restoreCommand proj nc nargs, solutionCommand proj bc bargs]"
proof -
  obtain stderr where r: "execFile env
           (trace w @ updated proj @ [StdoutWrite ''  Restoring nuget packages...''])
           (buildFile nc) (js_splice 1 (slnFile proj) nargs) (buildOptions proj) = (None, stderr)"
    using ok2 by (metis prod.collapse)
  obtain bstderr where b: "execFile env
           (trace w @ updated proj @ restored proj nc nargs stderr @ rebuilding)
           (buildFile bc) (push (slnFile proj) bargs) (buildOptions proj) = (None, bstderr)"
    using ok2 by (metis prod.collapse)
  note run = refreshTargetProject_msbuild [OF assms(1-10) ok1 r b, of k]
  show ?thesis
    using run assms(3)
    by (intro exI [of _ "w\<lparr>trace := trace w @ updated proj @ restored proj nc nargs stderr @
                                rebuilding @
                                [solutionCommand proj bc bargs, StdoutWrite complete, ConsoleLog []],
                     heap := heap w @ [push (slnFile proj) bargs,
                                       js_splice 1 (slnFile proj) nargs]\<rparr>"]
              exI [of _ "updated proj @ restored proj nc nargs stderr @ rebuilding @
                         [solutionCommand proj bc bargs, StdoutWrite complete, ConsoleLog []]"])
       simp
qed

text \<open>
  Claim C3. Whatever a refresh of a project does, at its end the loaded configuration is
  the same value and every array of a configured template holds what it held before: the
  splice and the push write to the arrays of the clones. So in a workspace of two
  \<open>msbuild\<close> projects (everything succeeding) the commands of the second project carry the
  template's arguments and the second project's solution file only.
\<close>

theorem build_templates_unchanged:
  assumes "opts w = Some cfg" and "buildConfig cfg = Some tools"
  shows "(\<exists>r w'. (refreshTargetProject env prog proj k w = k r w' \<or>
                  refreshTargetProject env prog proj k w = Halt w')
              \<and> opts w' = Some cfg
              \<and> (\<forall>t c. tools t = Some c \<and> buildArgs c < length (heap w)
                       \<longrightarrow> heap w' ! buildArgs c = heap w ! buildArgs c))
       \<and> (build prog \<and> buildTool p1 = ''msbuild'' \<and> buildTool p2 = ''msbuild''
            \<and> tools ''msbuild'' = Some bc \<and> tools ''nuget'' = Some nc
            \<and> buildArgs bc < length (heap w) \<and> buildArgs nc < length (heap w)
            \<and> map (resolves cfg) (ws_projects wsp) = [Some p1, Some p2]
            \<and> (\<forall>t p. svnUpdate env t p = None)
            \<and> (\<forall>t f a opt. fst (execFile env t f a opt) = None)
          \<longrightarrow> (\<exists>w'. refreshTargetWorkspace env prog wsp k w = k None w'
                 \<and> take (length (trace w)) (trace w') = trace w
                 \<and> filter is_command (drop (length (trace w)) (trace w')) =
                     [ExecFile (buildFile nc)
                        (take 1 (heap w ! buildArgs nc) @ slnFile p1 # drop 1 (heap w ! buildArgs nc))
                        (buildOptions p1),
                      ExecFile (buildFile bc) (heap w ! buildArgs bc @ [slnFile p1])
                        (buildOptions p1),
                      ExecFile (buildFile nc)
                        (take 1 (heap w ! buildArgs nc) @ slnFile p2 # drop 1 (heap w ! buildArgs nc))
                        (buildOptions p2),
                      ExecFile (buildFile bc) (heap w ! buildArgs bc @ [slnFile p2])
                        (buildOptions p2)]))"
proof (intro conjI impI)
  obtain r w' where run:
    "refreshTargetProject env prog proj k w = k r w' \<or>
     refreshTargetProject env prog proj k w = Halt w'"
    and ran: "ran [path proj] w w'"
    using refreshTargetProject_ran by blast
  from ran have fr: "frame w w'" by (simp add: ran_def)
  then have "opts w' = Some cfg" using assms(1) by (simp add: frame_def)
  moreover have "\<forall>t c. tools t = Some c \<and> buildArgs c < length (heap w)
                       \<longrightarrow> heap w' ! buildArgs c = heap w ! buildArgs c"
    using fr by (auto intro: frame_heap_prefix)
  ultimately show "\<exists>r w'. (refreshTargetProject env prog proj k w = k r w' \<or>
                  refreshTargetProject env prog proj k w = Halt w')
              \<and> opts w' = Some cfg
              \<and> (\<forall>t c. tools t = Some c \<and> buildArgs c < length (heap w)
                       \<longrightarrow> heap w' ! buildArgs c = heap w ! buildArgs c)"
    using run by blast
next
  assume a: "build prog \<and> buildTool p1 = ''msbuild'' \<and> buildTool p2 = ''msbuild''
            \<and> tools ''msbuild'' = Some bc \<and> tools ''nuget'' = Some nc
            \<and> buildArgs bc < length (heap w) \<and> buildArgs nc < length (heap w)
            \<and> map (resolves cfg) (ws_projects wsp) = [Some p1, Some p2]
            \<and> (\<forall>t p. svnUpdate env t p = None)
            \<and> (\<forall>t f a opt. fst (execFile env t f a opt) = None)"
  let ?bargs = "heap w ! buildArgs bc"
  let ?nargs = "heap w ! buildArgs nc"
  let ?k2 = "\<lambda>err w'. case err of Some e \<Rightarrow> k (Some e) w'
                               | None \<Rightarrow> async_eachSeries [] (refreshTargetProject env prog) k w'"
  let ?k1 = "\<lambda>err w'. case err of Some e \<Rightarrow> k (Some e) w'
                               | None \<Rightarrow> async_eachSeries [p2] (refreshTargetProject env prog) k w'"
  from a have res: "map (resolves cfg) (ws_projects wsp) = map Some [p1, p2]" by simp
  have ws: "refreshTargetWorkspace env prog wsp k w =
              refreshTargetProject env prog p1 ?k1 w"
    by (simp add: refreshTargetWorkspace_resolved [OF assms(1) res])
  from a obtain w1 es1 where 1:
    "refreshTargetProject env prog p1 ?k1 w = ?k1 None w1" "opts w1 = Some cfg"
    "heap w1 = heap w @ [push (slnFile p1) ?bargs, js_splice 1 (slnFile p1) ?nargs]"
    "trace w1 = trace w @ es1"
    "filter is_command es1 = [restoreCommand p1 nc ?nargs, solutionCommand p1 bc ?bargs]"
    using refreshTargetProject_msbuild_ok
      [where env = env and prog = prog and proj = p1 and w = w and cfg = cfg and tools = tools
         and bc = bc and nc = nc and bargs = ?bargs and nargs = ?nargs and k = ?k1]
      assms
    by auto
  have h1: "heap w1 ! buildArgs bc = ?bargs" "heap w1 ! buildArgs nc = ?nargs"
    "buildArgs bc < length (heap w1)" "buildArgs nc < length (heap w1)"
    using a 1(3) by (simp_all add: nth_append)
  from a obtain w2 es2 where 2:
    "refreshTargetProject env prog p2 ?k2 w1 = ?k2 None w2"
    "trace w2 = trace w1 @ es2"
    "filter is_command es2 = [restoreCommand p2 nc ?nargs, solutionCommand p2 bc ?bargs]"
    using refreshTargetProject_msbuild_ok
      [where env = env and prog = prog and proj = p2 and w = w1 and cfg = cfg and tools = tools
         and bc = bc and nc = nc and bargs = ?bargs and nargs = ?nargs and k = ?k2]
      assms(2) 1(2) h1
    by auto
  have "refreshTargetWorkspace env prog wsp k w = k None w2"
    using ws 1(1) 2(1) by simp
  moreover have "take (length (trace w)) (trace w2) = trace w"
    using 1(4) 2(2) by simp
  moreover have "filter is_command (drop (length (trace w)) (trace w2)) =
      [restoreCommand p1 nc ?nargs, solutionCommand p1 bc ?bargs,
       restoreCommand p2 nc ?nargs, solutionCommand p2 bc ?bargs]"
    using 1(4,5) 2(2,3) by simp
  ultimately show "\<exists>w'. refreshTargetWorkspace env prog wsp k w = k None w'
                 \<and> take (length (trace w)) (trace w') = trace w
                 \<and> filter is_command (drop (length (trace w)) (trace w')) =
                     [ExecFile (buildFile nc)
                        (take 1 (heap w ! buildArgs nc) @ slnFile p1 # drop 1 (heap w ! buildArgs nc))
                        (buildOptions p1),
                      ExecFile (buildFile bc) (heap w ! buildArgs bc @ [slnFile p1])
                        (buildOptions p1),
                      ExecFile (buildFile nc)
                        (take 1 (heap w ! buildArgs nc) @ slnFile p2 # drop 1 (heap w ! buildArgs nc))
                        (buildOptions p2),
                      ExecFile (buildFile bc) (heap w ! buildArgs bc @ [slnFile p2])
                        (buildOptions p2)]"
    by (intro exI [of _ w2])
       (simp add: restoreCommand_def solutionCommand_def js_splice_def push_def)
qed

lemma example_resolves:
  "map (resolves example_config) [''A'', ''B''] = [Some projectA, Some projectB]"
  "map (resolves example_config) [''A'', ''B'', ''C''] = map Some [projectA, projectB, projectC]"
  by (simp_all add: resolves_def example_config_def matchesProperty_def projectA_def projectB_def
      projectC_def)

theorem build_templates_unchanged_witness:
  "(\<exists>r w'. (refreshTargetProject example_env build_requested projectA chatty loaded_world =
               chatty r w' \<or>
             refreshTargetProject example_env build_requested projectA chatty loaded_world =
               Halt w')
          \<and> heap w' ! 0 = [JString ''/t:Rebuild'']
          \<and> heap w' ! 1 = [JString ''restore'', JString ''-NonInteractive''])
   \<and> (\<exists>w'. refreshTargetWorkspace cooperative_env build_requested
              \<lparr>ws_name = ''AB'', ws_projects = [''A'', ''B'']\<rparr> chatty loaded_world =
            chatty None w'
        \<and> filter is_command (drop (length (trace loaded_world)) (trace w')) =
            [ExecFile ''nuget.exe'' [JString ''restore'', JString ''A.sln'', JString ''-NonInteractive'']
               \<lparr>cwd = ''/src/a/sln'', maxBuffer = 1024000\<rparr>,
             ExecFile ''msbuild.exe'' [JString ''/t:Rebuild'', JString ''A.sln'']
               \<lparr>cwd = ''/src/a/sln'', maxBuffer = 1024000\<rparr>,
             ExecFile ''nuget.exe'' [JString ''restore'', JString ''B.sln'', JString ''-NonInteractive'']
               \<lparr>cwd = ''/src/b/sln'', maxBuffer = 1024000\<rparr>,
             ExecFile ''msbuild.exe'' [JString ''/t:Rebuild'', JString ''B.sln'']
               \<lparr>cwd = ''/src/b/sln'', maxBuffer = 1024000\<rparr>])"
proof -
  note t1 = build_templates_unchanged
    [OF example_facts(3,4), where env = example_env and prog = build_requested
       and proj = projectA and k = chatty, THEN conjunct1]
  note t2 = build_templates_unchanged
    [OF example_facts(3,4), where env = cooperative_env and prog = build_requested
       and k = chatty and ?p1.0 = projectA and ?p2.0 = projectB
       and bc = "\<lparr>buildFile = ''msbuild.exe'', buildArgs = 0\<rparr>"
       and nc = "\<lparr>buildFile = ''nuget.exe'', buildArgs = 1\<rparr>"
       and wsp = "\<lparr>ws_name = ''AB'', ws_projects = [''A'', ''B'']\<rparr>", THEN conjunct2]
  have ok: "\<forall>t p. svnUpdate cooperative_env t p = None"
    "\<forall>t f a opt. fst (execFile cooperative_env t f a opt) = None"
    by (simp_all add: cooperative_env_def example_env_def)
  have b: "buildTool projectB = ''msbuild''" by (simp add: projectB_def)
  have args: "heap loaded_world ! 0 = [JString ''/t:Rebuild'']"
    "heap loaded_world ! Suc 0 = [JString ''restore'', JString ''-NonInteractive'']"
    "slnFile projectA = JString ''A.sln''" "slnFile projectB = JString ''B.sln''"
    "buildOptions projectA = \<lparr>cwd = ''/src/a/sln'', maxBuffer = 1024000\<rparr>"
    "buildOptions projectB = \<lparr>cwd = ''/src/b/sln'', maxBuffer = 1024000\<rparr>"
    by (simp_all add: loaded_world_def example_heap_def projectA_def projectB_def buildOptions_def)
  have first: "\<exists>r w'. (refreshTargetProject example_env build_requested projectA chatty loaded_world =
               chatty r w' \<or>
             refreshTargetProject example_env build_requested projectA chatty loaded_world =
               Halt w')
          \<and> heap w' ! 0 = [JString ''/t:Rebuild'']
          \<and> heap w' ! 1 = [JString ''restore'', JString ''-NonInteractive'']"
  proof -
    from t1 obtain r w' where
      run: "refreshTargetProject example_env build_requested projectA chatty loaded_world =
               chatty r w' \<or>
             refreshTargetProject example_env build_requested projectA chatty loaded_world =
               Halt w'"
      and same: "\<forall>t c. example_tools t = Some c \<and> buildArgs c < length (heap loaded_world)
                       \<longrightarrow> heap w' ! buildArgs c = heap loaded_world ! buildArgs c"
      by blast
    from same example_facts(5,7) have "heap w' ! 0 = heap loaded_world ! 0" by fastforce
    moreover from same example_facts(6,8) have "heap w' ! 1 = heap loaded_world ! Suc 0"
      by fastforce
    ultimately show ?thesis using run args(1,2) by auto
  qed
  have second: "\<exists>w'. refreshTargetWorkspace cooperative_env build_requested
              \<lparr>ws_name = ''AB'', ws_projects = [''A'', ''B'']\<rparr> chatty loaded_world =
            chatty None w'
        \<and> filter is_command (drop (length (trace loaded_world)) (trace w')) =
            [ExecFile ''nuget.exe'' [JString ''restore'', JString ''A.sln'', JString ''-NonInteractive'']
               \<lparr>cwd = ''/src/a/sln'', maxBuffer = 1024000\<rparr>,
             ExecFile ''msbuild.exe'' [JString ''/t:Rebuild'', JString ''A.sln'']
               \<lparr>cwd = ''/src/a/sln'', maxBuffer = 1024000\<rparr>,
             ExecFile ''nuget.exe'' [JString ''restore'', JString ''B.sln'', JString ''-NonInteractive'']
               \<lparr>cwd = ''/src/b/sln'', maxBuffer = 1024000\<rparr>,
             ExecFile ''msbuild.exe'' [JString ''/t:Rebuild'', JString ''B.sln'']
               \<lparr>cwd = ''/src/b/sln'', maxBuffer = 1024000\<rparr>]"
    using t2 example_facts(1,2,5-8) b example_resolves(1) ok
    by (simp add: args) blast
  from first second show ?thesis by blast
qed

subsection \<open>One project after the other\<close>




subsection \<open>The elapsed time\<close>

lemma string_of_nat_digit: "n < 10 \<Longrightarrow> string_of_nat n = [''0123456789'' ! n]"
  by (subst string_of_nat.simps) simp

lemma js_rem_125: "js_rem 125 60 = 5"
proof -
  have "\<lfloor>125 / 60 :: rat\<rfloor> = 2" by (simp add: floor_eq_iff)
  then show ?thesis by (simp add: js_rem_def Let_def)
qed

lemma js_rem_2: "js_rem 2 60 = 2"
proof -
  have "\<lfloor>2 / 60 :: rat\<rfloor> = 0" by (simp add: floor_eq_iff)
  then show ?thesis by (simp add: js_rem_def Let_def)
qed

lemma displayProcessTime_125:
  assumes "toNumber (endTime w) - toNumber (startTime w) = 125000"
  shows "displayProcessTime w = emits [ConsoleLog ''Refresh complete in 2 minutes and 5 seconds.''] w"
proof -
  have fl: "\<lfloor>25 / 12 :: rat\<rfloor> = 2" by (simp add: floor_eq_iff)
  show ?thesis
    using assms
    by (simp add: displayProcessTime_def Let_def js_rem_125 js_rem_2 fl string_of_int_def
        string_of_nat_digit)
qed

lemma js_rem_nonneg:
  assumes "0 \<le> d"
  shows "js_rem (of_int d / 1000) 60 = of_int (d mod 60000) / 1000"
proof -
  have q: "(of_int d / 1000 :: rat) / 60 = of_int d / of_int 60000" by simp
  have fl: "\<lfloor>(of_int d / 1000 :: rat) / 60\<rfloor> = d div 60000"
    unfolding q by (rule floor_divide_of_int_eq)
  have nn: "0 \<le> (of_int d / 1000 :: rat) / 60" using assms by simp
  have "of_int d = (of_int (60000 * (d div 60000) + d mod 60000) :: rat)" by simp
  then have "(of_int d :: rat) = 60000 * of_int (d div 60000) + of_int (d mod 60000)"
    by (simp only: of_int_add of_int_mult of_int_numeral)
  then have "(of_int d / 1000 :: rat) - 60 * of_int (d div 60000) = of_int (d mod 60000) / 1000"
    by (simp add: field_simps)
  with fl nn show ?thesis
    by (simp add: js_rem_def Let_def)
qed

lemma js_rem_int_nonneg:
  assumes "0 \<le> m"
  shows "js_rem (of_int m) 60 = of_int (m mod 60)"
proof -
  have fl: "\<lfloor>(of_int m :: rat) / 60\<rfloor> = m div 60"
    using floor_divide_of_int_eq [of m 60, where ?'a = rat] by simp
  have nn: "0 \<le> (of_int m :: rat) / 60" using assms by simp
  have "of_int m = (of_int (60 * (m div 60) + m mod 60) :: rat)" by simp
  then have "(of_int m :: rat) = 60 * of_int (m div 60) + of_int (m mod 60)"
    by (simp only: of_int_add of_int_mult of_int_numeral)
  then have "(of_int m :: rat) - 60 * of_int (m div 60) = of_int (m mod 60)"
    by simp
  with fl nn show ?thesis
    by (simp add: js_rem_def Let_def)
qed

lemma round_thousandths: "round (of_int k / 1000 :: rat) = (k + 500) div 1000"
proof -
  have "(of_int k / 1000 :: rat) + 1 / 2 = of_int (k + 500) / of_int 1000" by simp
  then show ?thesis
    unfolding round_def by (simp only: floor_divide_of_int_eq)
qed

lemma displayProcessTime_nonneg:
  assumes "0 \<le> d" and "d = toNumber (endTime w) - toNumber (startTime w)"
  shows "displayProcessTime w =
           emits [ConsoleLog (''Refresh complete in '' @ string_of_int ((d div 60000) mod 60) @
                              '' minutes and '' @ string_of_int ((d mod 60000 + 500) div 1000) @
                              '' seconds.'')] w"
proof -
  have q: "(of_int d / 1000 :: rat) / 60 = of_int d / of_int 60000" by simp
  have fl: "\<lfloor>(of_int d / 1000 :: rat) / 60\<rfloor> = d div 60000"
    unfolding q by (rule floor_divide_of_int_eq)
  have m0: "0 \<le> d div 60000" using assms(1) by (simp add: pos_imp_zdiv_nonneg_iff)
  have secs: "round (js_rem (of_int d / 1000) 60) = (d mod 60000 + 500) div 1000"
    using assms(1) by (simp only: js_rem_nonneg round_thousandths)
  have mins: "round (js_rem (of_int (d div 60000)) 60) = (d div 60000) mod 60"
    using m0 by (simp only: js_rem_int_nonneg round_of_int)
  show ?thesis
    unfolding displayProcessTime_def Let_def assms(2) [symmetric] fl secs mins
    by simp
qed

lemma displayProcessTime_summary:
  "\<exists>s. displayProcessTime w = emits [ConsoleLog s] w \<and> is_summary (ConsoleLog s)"
  unfolding displayProcessTime_def Let_def
  by (rule exI, rule conjI, rule refl) simp

lemma shownHeader_no_summary: "\<not> list_ex is_summary (shownHeader env argv)"
  by (simp add: shownHeader_def headerLines_def)

lemma shownHeader_summary_free: "e \<in> set (shownHeader env argv) \<Longrightarrow> \<not> is_summary e"
  using shownHeader_no_summary [of env argv] by (simp add: list_ex_iff)

lemma refreshed_quiet:
  assumes "\<not> list_ex is_summary (trace w)" and "ran ps w w'"
  shows "\<forall>v. refreshed env waterfallDone r w' = Halt v \<longrightarrow> \<not> list_ex is_summary (trace v)"
proof (cases r)
  case None
  then show ?thesis
    by (simp add: refreshed_def waterfallDone_def Let_def)
next
  case (Some e)
  from assms(2) obtain es where es: "trace w' = trace w @ es" "\<not> list_ex is_summary es"
    by (rule ranE)
  have "refreshed env waterfallDone r w' =
    Halt (emits [ConsoleLog [], ConsoleLog (''Error: '' @ message e), ConsoleLog [], ProcessExit] w')"
    using Some by (simp add: refreshed_error waterfallDone_error)
  with es assms(1) show ?thesis
    by (auto simp: list_ex_iff)
qed

lemma ran_quiet:
  assumes "\<not> list_ex is_summary (trace w)" and "ran ps w w'"
  shows "\<not> list_ex is_summary (trace w')"
proof -
  from assms(2) obtain es where "trace w' = trace w @ es" "\<not> list_ex is_summary es"
    by (rule ranE)
  with assms(1) show ?thesis by (auto simp: list_ex_iff)
qed

lemma refreshTargetProject_quiet:
  assumes "\<not> list_ex is_summary (trace w)"
  shows "\<forall>v. refreshTargetProject env prog proj (refreshed env waterfallDone) w = Halt v
            \<longrightarrow> \<not> list_ex is_summary (trace v)"
proof (rule refreshTargetProject_wp)
  fix r w' assume "ran [path proj] w w'"
  with assms show "\<forall>v. refreshed env waterfallDone r w' = Halt v \<longrightarrow> \<not> list_ex is_summary (trace v)"
    by (rule refreshed_quiet)
next
  fix w' assume "ran [path proj] w w'"
  with assms show "\<forall>v. Halt w' = Halt v \<longrightarrow> \<not> list_ex is_summary (trace v)"
    by (auto dest: ran_quiet)
qed

lemma eachSeries_quiet:
  assumes "\<not> list_ex is_summary (trace w)"
  shows "\<forall>v. async_eachSeries ps (refreshTargetProject env prog) (refreshed env waterfallDone) w
              = Halt v \<longrightarrow> \<not> list_ex is_summary (trace v)"
proof (rule eachSeries_wp)
  fix r w' "done" assume "ran (map path done) w w'"
  with assms show "\<forall>v. refreshed env waterfallDone r w' = Halt v \<longrightarrow> \<not> list_ex is_summary (trace v)"
    by (rule refreshed_quiet)
next
  fix w' "done" assume "ran (map path done) w w'"
  with assms show "\<forall>v. Halt w' = Halt v \<longrightarrow> \<not> list_ex is_summary (trace v)"
    by (auto dest: ran_quiet)
qed

lemma refreshed_eta:
  "(\<lambda>err w''. case err of Some e \<Rightarrow> refreshed env k (Some e) w'' | None \<Rightarrow> refreshed env k None w'')
     = refreshed env k"
  by (intro ext) (simp split: option.splits)

lemma refreshTargetWorkspace_quiet:
  assumes "\<not> list_ex is_summary (trace w)" and "opts w = Some cfg"
    and "refreshTargetWorkspace env prog wsp (refreshed env waterfallDone) w = Halt v"
  shows "\<not> list_ex is_summary (trace v)"
proof (cases "\<forall>n \<in> set (ws_projects wsp). resolves cfg n \<noteq> None")
  case True
  then obtain ps where "map (resolves cfg) (ws_projects wsp) = map Some ps"
    using all_resolved_list by blast
  from forEach_all_resolved [OF assms(2) this, of "refreshed env waterfallDone" "[]"] assms(3)
  have "async_eachSeries ps (refreshTargetProject env prog) (refreshed env waterfallDone) w = Halt v"
    by (simp add: refreshTargetWorkspace_def refreshed_eta)
  with assms(1) show ?thesis
    using eachSeries_quiet by blast
next
  case False
  then obtain n where n: "n \<in> set (ws_projects wsp)"
    "lodash_find (projects cfg) (matchesProperty name n) = None"
    by (auto simp: resolves_def)
  have halts: "\<exists>w''. refreshed env waterfallDone (Some e) w' = Halt w''" for e w'
    by (simp add: refreshed_error waterfallDone_error)
  from forEach_unresolved [OF assms(2) n, of "refreshed env waterfallDone" "[]"] halts
  obtain x acc' where
    "lodash_forEach (ws_projects wsp) (resolveIteratee (refreshed env waterfallDone)) [] w =
       (acc', refreshed env waterfallDone
                (Some (Error (''Workspace project '' @ x @ '' is not configured.''))) w)"
    by blast
  with assms(3) have "v = emits [ConsoleLog [],
       ConsoleLog (''Error: '' @ ''Workspace project '' @ x @ '' is not configured.''),
       ConsoleLog [], ProcessExit] w"
    by (simp add: refreshTargetWorkspace_def refreshed_error waterfallDone_error)
  with assms(1) show ?thesis by (simp add: list_ex_iff)
qed

lemma processRequest_quiet:
  assumes "\<not> list_ex is_summary (trace w)" and "opts w = Some cfg"
    and "\<not> (truthy (project prog) \<and> truthy (workspace prog))"
    and "processRequest env prog waterfallDone w = Halt v"
  shows "\<not> list_ex is_summary (trace v)"
proof -
  let ?w2 = "emits [ConsoleLog []] (w\<lparr>startTime := Some (clock env (trace w))\<rparr>)"
  have q2: "\<not> list_ex is_summary (trace ?w2)" using assms(1) by (simp add: list_ex_iff)
  have o2: "opts ?w2 = Some cfg" using assms(2) by simp
  consider (neither) "\<not> truthy (project prog)" "\<not> truthy (workspace prog)"
    | (proj) "truthy (project prog)" "\<not> truthy (workspace prog)"
    | (wsp) "\<not> truthy (project prog)" "truthy (workspace prog)"
    using assms(3) by blast
  then show ?thesis
  proof cases
    case neither
    with assms(4) show ?thesis by (simp add: processRequest_def andThen_def)
  next
    case proj
    show ?thesis
    proof (cases "lodash_find (projects cfg) (matchesProperty name (toString (project prog)))")
      case None
      with proj assms(2,4) have "v = emits [ConsoleLog [],
          ConsoleLog (''Error: '' @ ''Project '' @ toString (project prog) @ '' is not configured.''),
          ConsoleLog [], ProcessExit] w"
        by (simp add: processRequest_def andThen_def validateTargetProject_def waterfallDone_error)
      with assms(1) show ?thesis by (simp add: list_ex_iff)
    next
      case (Some p)
      from processRequest_project [OF proj assms(2) Some, of env waterfallDone] assms(4)
      have "refreshTargetProject env prog p (refreshed env waterfallDone) ?w2 = Halt v"
        by (simp add: andThen_def split: outcome.splits)
      with q2 show ?thesis using refreshTargetProject_quiet by blast
    qed
  next
    case wsp
    show ?thesis
    proof (cases "lodash_find (workspaces cfg) (matchesProperty ws_name (toString (workspace prog)))")
      case None
      with wsp assms(2,4) have "v = emits [ConsoleLog [],
          ConsoleLog (''Error: '' @ ''Workspace '' @ toString (workspace prog) @ '' is not configured.''),
          ConsoleLog [], ProcessExit] w"
        by (simp add: processRequest_def andThen_def validateTargetWorkspace_def waterfallDone_error)
      with assms(1) show ?thesis by (simp add: list_ex_iff)
    next
      case (Some s)
      from processRequest_workspace [OF wsp assms(2) Some, of env waterfallDone] assms(4)
      have "refreshTargetWorkspace env prog s (refreshed env waterfallDone) ?w2 = Halt v"
        by simp
      with q2 o2 show ?thesis using refreshTargetWorkspace_quiet by blast
    qed
  qed
qed

lemma refresh_quiet:
  assumes "refresh env argv prog = Halt v"
  shows "\<not> list_ex is_summary (trace v)"
proof -
  have qS: "\<not> list_ex is_summary (trace (startedWorld env argv prog cfg h))" for cfg h
    using shownHeader_no_summary by (simp add: list_ex_iff)
  have qP: "processRequest env prog waterfallDone (startedWorld env argv prog cfg h) = Halt v \<Longrightarrow>
            \<not> (truthy (project prog) \<and> truthy (workspace prog)) \<Longrightarrow>
            \<not> list_ex is_summary (trace v)" for cfg h
    by (rule processRequest_quiet [where cfg = cfg, OF qS]) simp_all
  from assms show ?thesis
    unfolding refresh_unfold Let_def
    by (auto simp: processError_def throwSyntaxError_def init_world_def list_ex_iff
        split: if_splits read_result.splits
        dest: shownHeader_summary_free qP [unfolded list_ex_iff])
qed

text \<open>
  What the report gives: for a duration that is not negative, the whole minutes modulo
  60 and the remaining seconds rounded to the nearest integer; for 125 seconds the line
  \<open>Refresh complete in 2 minutes and 5 seconds.\<close>; a summary line whenever it is
  called; and no summary line at all in a run that fails (ends in \<open>processError\<close> or
  an uncaught exception).
\<close>

lemma elapsed_time_report:
  "(0 \<le> toNumber (endTime w) - toNumber (startTime w) \<longrightarrow>
      displayProcessTime w =
        emits [ConsoleLog
                 (''Refresh complete in '' @
                  string_of_int (((toNumber (endTime w) - toNumber (startTime w)) div 60000) mod 60) @
                  '' minutes and '' @
                  string_of_int (((toNumber (endTime w) - toNumber (startTime w)) mod 60000 + 500)
                                 div 1000) @
                  '' seconds.'')] w)
   \<and> (toNumber (endTime w) - toNumber (startTime w) = 125000 \<longrightarrow>
        displayProcessTime w =
          emits [ConsoleLog ''Refresh complete in 2 minutes and 5 seconds.''] w)
   \<and> (\<exists>s. displayProcessTime w = emits [ConsoleLog s] w \<and> is_summary (ConsoleLog s))
   \<and> (refresh env argv prog = Halt v \<longrightarrow> \<not> list_ex is_summary (trace v))"
  using displayProcessTime_nonneg [of "toNumber (endTime w) - toNumber (startTime w)" w]
    displayProcessTime_125 [of w] displayProcessTime_summary [of w] refresh_quiet [of env argv prog v]
  by blast

lemma displayProcessTime_3725:
  assumes "toNumber (endTime w) - toNumber (startTime w) = 3725000"
  shows "displayProcessTime w =
           emits [ConsoleLog ''Refresh complete in 2 minutes and 5 seconds.''] w"
  using displayProcessTime_nonneg [OF _ assms [symmetric]]
  by (simp add: string_of_int_def string_of_nat_digit)

text \<open>
  Claim C8. The report is to give the whole minutes of the measured duration and the
  rounded remainder of seconds. \<open>displayProcessTime\<close> takes the minutes modulo 60 and
  prints no hours: a refresh of project A that takes 3725 seconds, which is 62 minutes
  and 5 seconds, reports 2 minutes and 5 seconds, the line of a refresh of 125 seconds.
\<close>

theorem summary_drops_the_hours:
  "refresh slow_env [''node'', ''refresh.js'', ''-c'', ''devtoolz.json'', ''-p'', ''A''] refresh_A =
   Return JUndefined
     \<lparr>trace = headerLines slow_env @
        [FsAccess ''devtoolz.json'', OptsRead ''devtoolz.json'', ConsoleLog [],
         ConsoleLog ''Refreshing A:'', StdoutWrite ''  Updating local copy...'',
         SvnUpdate ''/src/a'', StdoutWrite complete, ConsoleLog [],
         ConsoleLog [], ConsoleLog [],
         ConsoleLog ''Refresh complete in 2 minutes and 5 seconds.'', ConsoleLog []],
      heap = example_heap, opts = Some example_config,
      startTime = Some 0, endTime = Some 3725000\<rparr>"
proof -
  let ?argv = "[''node'', ''refresh.js'', ''-c'', ''devtoolz.json'', ''-p'', ''A'']"
  let ?W = "startedWorld slow_env ?argv refresh_A example_config example_heap"
  have env: "fsAccess slow_env ''devtoolz.json''"
    "optsRead slow_env ''devtoolz.json'' = ReadLoaded example_config example_heap"
    "svnUpdate slow_env t p = None" for t p
    by (simp_all add: slow_env_def cooperative_env_def example_env_def)
  have prog: "truthy (project refresh_A)" "\<not> truthy (workspace refresh_A)"
    "toString (project refresh_A) = ''A''" "configPathOf refresh_A = ''devtoolz.json''"
    "\<not> build refresh_A"
    by (simp_all add: refresh_A_def truthy_def toString_def configPathOf_def)
  have found: "lodash_find (projects example_config)
                 (matchesProperty name (toString (project refresh_A))) = Some projectA"
    by (simp add: prog example_config_def matchesProperty_def projectA_def)
  have hdr: "shownHeader slow_env ?argv = headerLines slow_env"
    by (simp add: shownHeader_def headerCondition_def lodash_includes_def)
  have nohdr: "\<not> list_ex update_or_build (headerLines slow_env)"
    by (simp add: headerLines_def)
  have start: "refresh slow_env ?argv refresh_A = processRequest slow_env refresh_A waterfallDone ?W"
    using env prog by (intro refresh_started) simp_all
  let ?w2 = "emits [ConsoleLog []] (?W\<lparr>startTime := Some (clock slow_env (trace ?W))\<rparr>)"
  have clk: "clock slow_env t = (if list_ex update_or_build t then 3725000 else 0)" for t
    by (simp add: slow_env_def)
  have c0: "clock slow_env (trace ?W) = 0"
    using nohdr by (simp add: clk hdr prog)
  let ?w3 = "emits (updated projectA @ [ConsoleLog []]) ?w2"
  have step: "refreshTargetProject slow_env refresh_A projectA (refreshed slow_env waterfallDone) ?w2
                = refreshed slow_env waterfallDone None ?w3"
    using prog(5) env(3) by (simp add: refreshTargetProject_def updated_def Let_def)
  have c1: "clock slow_env (trace ?w3) = 3725000"
    by (simp add: clk updated_def)
  let ?w4 = "emits [ConsoleLog [], ConsoleLog []] (?w3\<lparr>endTime := Some 3725000\<rparr>)"
  have d: "toNumber (endTime ?w4) - toNumber (startTime ?w4) = 3725000"
    using c0 by (simp add: toNumber_def)
  have fin: "refreshed slow_env waterfallDone None ?w3 =
               Return JUndefined
                 (emits [ConsoleLog []]
                    (emits [ConsoleLog ''Refresh complete in 2 minutes and 5 seconds.''] ?w4))"
    using c1 displayProcessTime_3725 [OF d]
    by (simp add: refreshed_def waterfallDone_def Let_def)
  have "refresh slow_env ?argv refresh_A =
          Return JUndefined
            (emits [ConsoleLog []]
               (emits [ConsoleLog ''Refresh complete in 2 minutes and 5 seconds.''] ?w4))"
    using start processRequest_project [OF prog(1,2) _ found, of ?W slow_env waterfallDone] step fin
    by (simp add: andThen_def)
  then show ?thesis
    using c0 by (simp add: emits_def startedWorld_def hdr prog updated_def projectA_def)
qed

end
